theory Spec2Isabelle
  imports Main "HOL-Library.Sublist"
begin

section \<open>Python strings\<close>

text \<open>
  A Python \<open>str\<close> is a \<^typ>\<open>string\<close>; one \<^typ>\<open>char\<close> is one code point, so the model
  covers the code points 0 to 255.

  \<open>s.find(sub)\<close> is the lowest index at which \<open>sub\<close> starts in \<open>s\<close>, and \<open>-1\<close> when
  there is none. The scan keeps the index of the position it is looking at.
\<close>

fun find_from :: "string \<Rightarrow> string \<Rightarrow> int \<Rightarrow> int" where
  "find_from [] sub i = (if sub = [] then i else - 1)"
| "find_from (c # s) sub i = (if prefix sub (c # s) then i else find_from s sub (i + 1))"

definition str_find :: "string \<Rightarrow> string \<Rightarrow> int" where
  "str_find s sub = find_from s sub 0"

text \<open>
  \<open>s.lower()\<close>. On the code points 0 to 255 Python lower-cases \<open>A\<close> to \<open>Z\<close> (65 to 90)
  and the Latin-1 capitals 192 to 222 without the multiplication sign 215, each by
  adding 32, and leaves every other code point as it is.
\<close>

definition lower_char :: "char \<Rightarrow> char" where
  "lower_char c =
     (let n = (of_char c :: nat)
      in if (65 \<le> n \<and> n \<le> 90) \<or> (192 \<le> n \<and> n \<le> 222 \<and> n \<noteq> 215)
         then char_of (n + 32) else c)"

definition str_lower :: "string \<Rightarrow> string" where
  "str_lower s = map lower_char s"

text \<open>
  \<open>len(v.splitlines()) > 1\<close>: on the code points 0 to 255 a line ends at LF, VT, FF,
  FS, GS, RS, NEL, or at CR, where CR LF counts as one end. A string has more than one
  line when something follows its first line end.
\<close>

definition is_line_end :: "char \<Rightarrow> bool" where
  "is_line_end c \<longleftrightarrow>
     c \<in> set [CHR 0x0A, CHR 0x0B, CHR 0x0C, CHR 0x1C, CHR 0x1D, CHR 0x1E, CHR 0x85]"

fun after_first_line :: "string \<Rightarrow> string option" where
  "after_first_line [] = None"
| "after_first_line (c # s) =
     (if c = CHR 0x0D then
        (case s of
           [] \<Rightarrow> Some []
         | d # t \<Rightarrow> if d = CHR 0x0A then Some t else Some s)
      else if is_line_end c then Some s
      else after_first_line s)"

definition multi_line :: "string \<Rightarrow> bool" where
  "multi_line v = (case after_first_line v of None \<Rightarrow> False | Some rest \<Rightarrow> rest \<noteq> [])"

section \<open>The environment probe and the search-path mutation\<close>

text \<open>
  \<open>os.environ\<close> is a dictionary from names to values; \<open>os.environ.get(k)\<close> is \<open>None\<close>
  for a name that is not set.
\<close>

type_synonym environ = "string \<rightharpoonup> string"

text \<open>
  The truth value of \<open>os.environ.get(k) and os.environ.get(k).find(m) != -1\<close>: \<open>None\<close>
  and the empty string are false in Python, so \<open>find\<close> is only reached on a non-empty
  value.
\<close>

definition get_and_find :: "environ \<Rightarrow> string \<Rightarrow> string \<Rightarrow> bool" where
  "get_and_find env k m =
     (case env k of
        None \<Rightarrow> False
      | Some p \<Rightarrow> p \<noteq> [] \<and> str_find p m \<noteq> - 1)"

text \<open>
  \<open>ora_check\<close> of \<open>oracle_decorator.wrapper\<close>, for \<open>os.name\<close>, the configured client
  path and the environment.
\<close>

definition ora_check :: "string \<Rightarrow> string \<Rightarrow> environ \<Rightarrow> bool" where
  "ora_check name ora_client_path env =
     (ora_client_path = [] \<or>
      (name = ''nt'' \<and> get_and_find env ''PATH'' ora_client_path) \<or>
      (name = ''posix'' \<and> get_and_find env ''LD_LIBRARY_PATH'' ora_client_path))"

text \<open>
  The value that \<open>if os.environ.get(k): os.environ[k] += ';' + path
  else: os.environ[k] = path\<close> assigns to the variable \<open>k\<close>; both branches of the
  wrapper run this statement, each on its own variable.
\<close>

definition joined_value :: "environ \<Rightarrow> string \<Rightarrow> string \<Rightarrow> string" where
  "joined_value env k ora_client_path =
     (case env k of
        None \<Rightarrow> ora_client_path
      | Some p \<Rightarrow> if p \<noteq> [] then p @ '';'' @ ora_client_path else ora_client_path)"

text \<open>
  The name of the variable the wrapper reads in its check and writes in its \<open>else\<close>
  part under \<open>os.name\<close> \<open>nt\<close> and \<open>posix\<close>.
\<close>

definition search_path_var :: "string \<Rightarrow> string" where
  "search_path_var name = (if name = ''nt'' then ''PATH'' else ''LD_LIBRARY_PATH'')"

section \<open>Errors, configuration and the state of a run\<close>

text \<open>
  A value fetched from the database: \<open>None\<close> for NULL, a string or a number.
\<close>

datatype pyval = PyNone | PyStr string | PyInt int

text \<open>
  An exception is its class and \<open>str(e)\<close>. \<open>SystemExit\<close> (what \<open>argparse\<close> raises on a
  bad command line, with the exit status) is the one class here that
  \<open>except Exception\<close> does not catch.
\<close>

datatype exc_class =
    RuntimeError | KeyError | AttributeError | TypeError | IndexError | ValueError
  | OSError | ImportError | DatabaseError | SMTPException | InterpolationError

datatype error = Error exc_class string | SystemExit nat

text \<open>
  The parsed config file as the program reads it: for each section and each of its
  options, what reading the option gives, the value after interpolation or the error
  the interpolation raises. \<open>cfg[sec][opt]\<close> raises \<open>KeyError\<close> for a section or an
  option that is not there; \<open>str\<close> of a \<open>KeyError\<close> is the key in quotes.
\<close>

type_synonym config = "string \<rightharpoonup> (string \<rightharpoonup> error + string)"

definition quoted :: "string \<Rightarrow> string" where
  "quoted k = [CHR 0x27] @ k @ [CHR 0x27]"

definition cfg_get :: "config \<Rightarrow> string \<Rightarrow> string \<Rightarrow> error + string" where
  "cfg_get c sec opt =
     (case c sec of
        None \<Rightarrow> Inl (Error KeyError (quoted sec))
      | Some options \<Rightarrow>
          (case options opt of
             None \<Rightarrow> Inl (Error KeyError (quoted opt))
           | Some read \<Rightarrow> read))"

text \<open>The namespace \<open>parse_args\<close> returns.\<close>

record namespace =
  debug :: bool
  command :: string
  cmd2_arg1 :: string
  pos_arg :: string

text \<open>
  The driver's objects: the connection, and the cursors in the order they were opened.
\<close>

datatype handle = Con | Cur nat

text \<open>
  The message \<open>send_mail\<close> builds: the four header values it assigns and the text it
  hands to \<open>set_content\<close>.
\<close>

record message =
  msg_subject :: string
  msg_from :: string
  msg_to :: string
  msg_x_priority :: string
  msg_content :: string

text \<open>
  What a run calls outside its own code, one event per call, in the order of the calls:
  reading the config file, parsing the command line, opening a log file (directory and
  file name) or the syslog socket, a log record, a line printed, the import of the
  driver, the calls on the driver's objects, the SMTP connection, the assignment of a
  header (name and value) and of the content of the message, the send, the assignment
  \<open>os.environ[k] = v\<close>, and \<open>os.execv\<close>.
\<close>

datatype event =
    ReadConfig
  | ParseArgs
  | OpenLogFile string string
  | OpenSyslog string
  | LogInfo string
  | LogException string error
  | Print string
  | ImportDriver
  | Connect string
  | NewCursor handle
  | Commit handle
  | Close handle
  | Execute handle string
  | FetchOne handle
  | SmtpConnect string
  | SetHeader string string
  | SetContent string
  | SendMessage message
  | Putenv string string
  | Execv string "string list"

text \<open>
  What a process is started with and what the outside answers. \<open>raises\<close> says, for the
  calls made so far and the call being made, whether that call raises and what, apart
  from the two refusals that are written out below; logging and printing are taken not
  to raise. \<open>description\<close> holds \<open>d[0]\<close> for each \<open>d\<close> of
  the cursor's \<open>description\<close> after the query (\<open>None\<close> when the cursor has none), and
  \<open>fetchone\<close> the tuple the query yields (\<open>None\<close> when it yields no row).
  \<open>select_sql\<close> stands for \<open>oradata.ORA_SELECT_FROM_DUAL_SQL\<close> and \<open>notify_text\<close> for
  \<open>maildata.NOTIFY_TEXT.format\<close> with its three fields, which gives the text or raises;
  both modules are outside the source file. \<open>format_exc\<close> is \<open>traceback.format_exc()\<close> for the exception being
  handled, \<open>argv_str\<close> is \<open>str(sys.argv)\<close>, \<open>timestamp\<close> and \<open>elapsed\<close> are the two
  readings of the clock as the program prints them.
\<close>

record host =
  os_name :: string
  is_user_an_admin :: int
  getuid :: nat
  executable :: string
  argv :: "string list"
  argv_str :: string
  config_file :: config
  parse_args :: "error + namespace"
  raises :: "event list \<Rightarrow> event \<Rightarrow> error option"
  description :: "string list option"
  fetchone :: "pyval list option"
  select_sql :: string
  notify_text :: "string \<Rightarrow> string \<Rightarrow> string \<Rightarrow> error + string"
  format_exc :: "error \<Rightarrow> string"
  timestamp :: string
  elapsed :: string

text \<open>
  The state of the process: its environment, the calls made so far, and the fields of
  the \<open>App\<close> object.
\<close>

record state =
  environ :: environ
  trace :: "event list"
  cfg :: config
  args :: namespace
  ora_con :: "handle option"
  ora_select_cur :: "handle option"
  ora_update_cur :: "handle option"

text \<open>
  The state when \<open>App.__init__\<close> reaches \<open>check_admin\<close>: nothing called yet, the three
  Oracle fields \<open>None\<close>, config and arguments not read yet.
\<close>

definition init_state :: "environ \<Rightarrow> state" where
  "init_state env =
     \<lparr>environ = env, trace = [], cfg = Map.empty,
      args = \<lparr>debug = False, command = [], cmd2_arg1 = [], pos_arg = []\<rparr>,
      ora_con = None, ora_select_cur = None, ora_update_cur = None\<rparr>"

text \<open>
  A piece of the program either returns a value, raises, or ends with the process image
  replaced by \<open>os.execv\<close>, after which nothing of this process runs.
\<close>

datatype 'a outcome = Return 'a | Raise error | Replaced

type_synonym 'a prog = "state \<Rightarrow> 'a outcome \<times> state"

definition then_do :: "'a prog \<Rightarrow> ('a \<Rightarrow> 'b prog) \<Rightarrow> 'b prog" where
  "then_do p f s =
     (case p s of
        (Return a, s1) \<Rightarrow> f a s1
      | (Raise e, s1) \<Rightarrow> (Raise e, s1)
      | (Replaced, s1) \<Rightarrow> (Replaced, s1))"

definition emit :: "event \<Rightarrow> unit prog" where
  "emit ev s = (Return (), s\<lparr>trace := trace s @ [ev]\<rparr>)"

text \<open>
  Two calls are refused by the library whatever the host: \<open>os.environ[k] = v\<close> raises
  \<open>ValueError\<close> for a value with a NUL character, and the assignment of a header raises
  \<open>ValueError\<close> for a value of more than one line.
\<close>

definition refused :: "string \<Rightarrow> event \<Rightarrow> error option" where
  "refused name ev =
     (case ev of
        Putenv k v \<Rightarrow>
          if CHR 0x00 \<in> set v then
            Some (Error ValueError
              (if name = ''nt'' then ''embedded null character'' else ''embedded null byte''))
          else None
      | SetHeader n v \<Rightarrow>
          if multi_line v then
            Some (Error ValueError
              ''Header values may not contain linefeed or carriage return characters'')
          else None
      | _ \<Rightarrow> None)"

text \<open>
  Whether a call raises, and what: the refusal of the library if there is one, the
  answer of the host otherwise.
\<close>

definition fails :: "host \<Rightarrow> event list \<Rightarrow> event \<Rightarrow> error option" where
  "fails h hist ev =
     (case refused (os_name h) ev of
        Some e \<Rightarrow> Some e
      | None \<Rightarrow> raises h hist ev)"

definition call :: "host \<Rightarrow> event \<Rightarrow> unit prog" where
  "call h ev s =
     (case fails h (trace s) ev of
        None \<Rightarrow> (Return (), s\<lparr>trace := trace s @ [ev]\<rparr>)
      | Some e \<Rightarrow> (Raise e, s\<lparr>trace := trace s @ [ev]\<rparr>))"

text \<open>
  The calls of a list made one after the other, up to and with the first that raises.
\<close>

fun issue :: "host \<Rightarrow> event list \<Rightarrow> unit prog" where
  "issue h [] s = (Return (), s)"
| "issue h (ev # evs) s =
     (case fails h (trace s) ev of
        None \<Rightarrow> issue h evs (s\<lparr>trace := trace s @ [ev]\<rparr>)
      | Some e \<Rightarrow> (Raise e, s\<lparr>trace := trace s @ [ev]\<rparr>))"

definition lookup :: "string \<Rightarrow> string \<Rightarrow> string prog" where
  "lookup sec opt s =
     (case cfg_get (cfg s) sec opt of
        Inl e \<Rightarrow> (Raise e, s)
      | Inr v \<Rightarrow> (Return v, s))"

text \<open>
  \<open>field.method(...)\<close> on one of the three Oracle fields: \<open>AttributeError\<close> while the
  field is \<open>None\<close>, the driver's call on the object otherwise.
\<close>

definition on_field ::
  "host \<Rightarrow> (state \<Rightarrow> handle option) \<Rightarrow> string \<Rightarrow> (handle \<Rightarrow> event) \<Rightarrow> unit prog" where
  "on_field h field method ev s =
     (case field s of
        None \<Rightarrow>
          (Raise (Error AttributeError
             (quoted ''NoneType'' @ '' object has no attribute '' @ quoted method)), s)
      | Some x \<Rightarrow> call h (ev x) s)"

section \<open>Start-up\<close>

text \<open>\<open>App.check_admin\<close>.\<close>

definition is_admin :: "host \<Rightarrow> bool" where
  "is_admin h =
     (if os_name h = ''nt'' then is_user_an_admin h \<noteq> 0 else getuid h = 0)"

definition check_admin :: "host \<Rightarrow> unit prog" where
  "check_admin h s =
     (if is_admin h then (Raise (Error RuntimeError ''Error! User has admin/root rights!''), s)
      else (Return (), s))"

text \<open>
  \<open>App.__create_args\<close>: the parser is built and \<open>parse_args\<close> either returns the
  namespace or leaves with \<open>SystemExit\<close>.
\<close>

definition create_args :: "host \<Rightarrow> namespace prog" where
  "create_args h =
     then_do (emit ParseArgs) (\<lambda>_ s.
       case parse_args h of
         Inl e \<Rightarrow> (Raise e, s)
       | Inr ns \<Rightarrow> (Return ns, s))"

text \<open>
  \<open>App.__create_logger\<close>: the console handler needs nothing from outside; the info
  file, the syslog handler when \<open>syslog_enable\<close> is \<open>Y\<close>, and the debug file under
  \<open>--debug\<close> are opened in this order.
\<close>

definition create_logger :: "host \<Rightarrow> unit prog" where
  "create_logger h =
     then_do (lookup ''main'' ''log_dir'') (\<lambda>log_dir.
     then_do (call h (OpenLogFile log_dir (''info-'' @ timestamp h @ ''.log''))) (\<lambda>_.
     then_do (lookup ''syslog'' ''syslog_enable'') (\<lambda>syslog_enable.
     then_do
       (if syslog_enable = ''Y'' then
          then_do (lookup ''syslog'' ''syslog_pname'') (\<lambda>_.
          then_do (lookup ''syslog'' ''syslog_server'') (\<lambda>server.
          call h (OpenSyslog server)))
        else Pair (Return ()))
       (\<lambda>_ s.
          if debug (args s) then
            then_do (lookup ''main'' ''log_dir'') (\<lambda>dbg_dir.
              call h (OpenLogFile dbg_dir (''debug-'' @ timestamp h @ ''.log''))) s
          else (Return (), s)))))"

text \<open>\<open>App.__init__\<close> from \<open>check_admin\<close> on.\<close>

definition App_init :: "host \<Rightarrow> unit prog" where
  "App_init h =
     then_do (check_admin h) (\<lambda>_.
     then_do (call h ReadConfig) (\<lambda>_.
     then_do (\<lambda>s. (Return (), s\<lparr>cfg := config_file h\<rparr>)) (\<lambda>_.
     then_do (create_args h) (\<lambda>ns.
     then_do (\<lambda>s. (Return (), s\<lparr>args := ns\<rparr>)) (\<lambda>_.
     then_do (create_logger h) (\<lambda>_.
     then_do (lookup ''main'' ''program'') (\<lambda>program.
     then_do (emit (LogInfo (''Start '' @ program))) (\<lambda>_.
     emit (LogInfo (''Command line - '' @ argv_str h))))))))))"

section \<open>The Oracle session\<close>

text \<open>
  \<open>os.execv\<close>: it raises, or the process image is replaced and the call never returns.
\<close>

definition execv :: "host \<Rightarrow> string \<Rightarrow> string list \<Rightarrow> 'a prog" where
  "execv h path argl s =
     (case fails h (trace s) (Execv path argl) of
        None \<Rightarrow> (Replaced, s\<lparr>trace := trace s @ [Execv path argl]\<rparr>)
      | Some e \<Rightarrow> (Raise e, s\<lparr>trace := trace s @ [Execv path argl]\<rparr>))"

text \<open>
  \<open>if os.environ.get(k): os.environ[k] += ';' + path else: os.environ[k] = path\<close>: the
  assignment raises and leaves the environment as it was, or stores the value.
\<close>

definition add_to_var :: "host \<Rightarrow> string \<Rightarrow> string \<Rightarrow> unit prog" where
  "add_to_var h k ora_client_path s =
     then_do (call h (Putenv k (joined_value (environ s) k ora_client_path)))
       (\<lambda>_ s1. (Return (),
          s1\<lparr>environ := (environ s1)(k \<mapsto> joined_value (environ s) k ora_client_path)\<rparr>)) s"

text \<open>
  \<open>oracle_decorator\<close>: the wrapper around the decorated function \<open>func\<close>.
  \<open>sys.argv[0]\<close> raises \<open>IndexError\<close> on an empty list.
\<close>

definition oracle_decorator :: "host \<Rightarrow> 'a prog \<Rightarrow> 'a prog" where
  "oracle_decorator h func =
     then_do (lookup ''oracle'' ''ic_path'') (\<lambda>ora_client_path s.
       if ora_check (os_name h) ora_client_path (environ s) then
         then_do (call h ImportDriver) (\<lambda>_. func) s
       else if os_name h = ''nt'' then
         then_do (add_to_var h ''PATH'' ora_client_path) (\<lambda>_.
           execv h (executable h) (executable h # argv h)) s
       else
         then_do (add_to_var h ''LD_LIBRARY_PATH'' ora_client_path) (\<lambda>_ s1.
           case argv h of
             [] \<Rightarrow> (Raise (Error IndexError ''list index out of range''), s1)
           | a # _ \<Rightarrow> execv h a (argv h) s1) s)"

text \<open>
  The body of \<open>oracle_connect\<close>. The first cursor opened becomes the select cursor, the
  second the update cursor; the three fields are assigned together at the end.
\<close>

definition oracle_connect_body :: "host \<Rightarrow> unit prog" where
  "oracle_connect_body h =
     then_do (lookup ''oracle'' ''login'') (\<lambda>l.
     then_do (lookup ''oracle'' ''host'') (\<lambda>ht.
     then_do (lookup ''oracle'' ''sid'') (\<lambda>sd.
     then_do (emit (LogInfo (''Init Oracle. Database - '' @ l @ ''@'' @ ht @ ''/'' @ sd))) (\<lambda>_.
     then_do (lookup ''oracle'' ''login'') (\<lambda>u.
     then_do (lookup ''oracle'' ''password'') (\<lambda>p.
     then_do (lookup ''oracle'' ''host'') (\<lambda>h'.
     then_do (lookup ''oracle'' ''sid'') (\<lambda>s'.
     then_do (call h (Connect (u @ ''/'' @ p @ ''@'' @ h' @ ''/'' @ s'))) (\<lambda>_.
     then_do (call h (NewCursor (Cur 0))) (\<lambda>_.
     then_do (call h (NewCursor (Cur 1))) (\<lambda>_ s.
       (Return (),
        s\<lparr>ora_con := Some Con, ora_select_cur := Some (Cur 0),
          ora_update_cur := Some (Cur 1)\<rparr>))))))))))))"

definition oracle_connect :: "host \<Rightarrow> unit prog" where
  "oracle_connect h = oracle_decorator h (oracle_connect_body h)"

text \<open>
  The chain of processes at \<open>oracle_connect\<close>: a process that ends there in \<open>os.execv\<close>
  is followed by one that, started from the same program, arguments and config file,
  comes to \<open>oracle_connect\<close> as the first did, with the environment the first left. The
  counter is the number of relaunches so far; a chain that never gets past \<open>os.execv\<close>
  has no result.
\<close>

partial_function (option) relaunch_chain :: "host \<Rightarrow> state \<Rightarrow> nat \<Rightarrow> nat option" where
  "relaunch_chain h s n =
     (if fst (oracle_connect h s) = Replaced then
        relaunch_chain h (s\<lparr>environ := environ (snd (oracle_connect h s))\<rparr>) (Suc n)
      else Some n)"

text \<open>\<open>App.oracle_disconnect\<close>.\<close>

definition oracle_disconnect :: "host \<Rightarrow> bool \<Rightarrow> unit prog" where
  "oracle_disconnect h commit =
     then_do (if commit then on_field h ora_con ''commit'' Commit else Pair (Return ())) (\<lambda>_.
     then_do (on_field h ora_update_cur ''close'' Close) (\<lambda>_.
     then_do (on_field h ora_select_cur ''close'' Close) (\<lambda>_.
     on_field h ora_con ''close'' Close)))"

section \<open>The row factory\<close>

text \<open>
  \<open>dict(pairs)\<close>: the pairs are stored from left to right, so a later pair with the same
  key replaces the earlier one.
\<close>

definition dict_store :: "'k \<times> 'v \<Rightarrow> ('k \<rightharpoonup> 'v) \<Rightarrow> ('k \<rightharpoonup> 'v)" where
  "dict_store p d = d(fst p \<mapsto> snd p)"

definition dict_of :: "('k \<times> 'v) list \<Rightarrow> ('k \<rightharpoonup> 'v)" where
  "dict_of pairs = fold dict_store pairs Map.empty"

text \<open>\<open>a if a is not None else ''\<close>.\<close>

definition none_to_empty :: "pyval \<Rightarrow> pyval" where
  "none_to_empty a = (if a \<noteq> PyNone then a else PyStr [])"

text \<open>\<open>create_row(*args)\<close>, closed over \<open>column_names\<close>.\<close>

definition create_row :: "string list \<Rightarrow> pyval list \<Rightarrow> (string \<rightharpoonup> pyval)" where
  "create_row column_names values = dict_of (zip column_names (map none_to_empty values))"

text \<open>
  \<open>App.oracle_row_factory\<close>: iterating over a \<open>description\<close> that is \<open>None\<close> raises
  \<open>TypeError\<close>; otherwise the names are lower-cased once and the row function is
  returned.
\<close>

definition oracle_row_factory ::
  "string list option \<Rightarrow> error + (pyval list \<Rightarrow> (string \<rightharpoonup> pyval))" where
  "oracle_row_factory descr =
     (case descr of
        None \<Rightarrow> Inl (Error TypeError (quoted ''NoneType'' @ '' object is not iterable''))
      | Some ds \<Rightarrow> Inr (create_row (map str_lower ds)))"

section \<open>Commands and the run\<close>

definition cmd1 :: "unit prog" where
  "cmd1 =
     then_do (emit (LogInfo ''>>>>> Begin cmd1() <<<<<'')) (\<lambda>_.
     then_do (\<lambda>s. emit (Print (''Hello cmd1! Positional argument - '' @ pos_arg (args s))) s) (\<lambda>_.
     emit (LogInfo ''>>>>> End cmd1() <<<<<'')))"

text \<open>\<open>timer_decorator\<close>: the elapsed time is logged when \<open>func\<close> has returned.\<close>

definition timer_decorator :: "host \<Rightarrow> 'a prog \<Rightarrow> 'a prog" where
  "timer_decorator h func =
     then_do func (\<lambda>res.
     then_do (emit (LogInfo (''Time elapsed (sec): '' @ elapsed h))) (\<lambda>_.
     Pair (Return res)))"

definition cmd2_body :: "unit prog" where
  "cmd2_body =
     then_do (emit (LogInfo ''>>>>> Begin cmd2() <<<<<'')) (\<lambda>_.
     then_do
       (\<lambda>s. emit (Print (''Hello cmd2! Cmd2 arg - '' @ cmd2_arg1 (args s) @
                          ''. Positional argument - '' @ pos_arg (args s))) s) (\<lambda>_.
     then_do (emit (Print ''See time elapsed!'')) (\<lambda>_.
     emit (LogInfo ''>>>>> End cmd2() <<<<<''))))"

definition cmd2 :: "host \<Rightarrow> unit prog" where
  "cmd2 h = timer_decorator h cmd2_body"

text \<open>
  \<open>App.cmd3\<close>. \<open>fetchone\<close> gives \<open>None\<close> when there is no row and the row factory's
  record otherwise; \<open>'column1' in res\<close> raises \<open>TypeError\<close> on \<open>None\<close>.
\<close>

definition cmd3 :: "host \<Rightarrow> unit prog" where
  "cmd3 h =
     then_do (emit (LogInfo ''>>>>> Begin cmd3() <<<<<'')) (\<lambda>_.
     then_do (on_field h ora_select_cur ''execute'' (\<lambda>c. Execute c (select_sql h))) (\<lambda>_.
     then_do
       (\<lambda>s. case oracle_row_factory (description h) of
               Inl e \<Rightarrow> (Raise e, s)
             | Inr rowfactory \<Rightarrow> (Return rowfactory, s)) (\<lambda>rowfactory.
     then_do (on_field h ora_select_cur ''fetchone'' FetchOne) (\<lambda>_.
     then_do
       (\<lambda>s. case map_option rowfactory (fetchone h) of
               None \<Rightarrow>
                 (Raise (Error TypeError
                    (''argument of type '' @ quoted ''NoneType'' @ '' is not iterable'')), s)
             | Some res \<Rightarrow>
                 if res ''column1'' \<noteq> None then emit (Print ''Test Oracle - OK'') s
                 else emit (Print ''Test Oracle - ERROR'') s) (\<lambda>_.
     emit (LogInfo ''>>>>> End cmd3() <<<<<''))))))"

text \<open>
  \<open>App.send_mail\<close>: the connection, the four header assignments, \<open>set_content\<close>, the
  send.
\<close>

definition send_mail ::
  "host \<Rightarrow> string \<Rightarrow> string \<Rightarrow> string \<Rightarrow> string \<Rightarrow> string \<Rightarrow> string \<Rightarrow> unit prog" where
  "send_mail h mail_host email_from email_to subject text priority =
     then_do (call h (SmtpConnect mail_host)) (\<lambda>_.
     then_do (call h (SetHeader ''Subject'' subject)) (\<lambda>_.
     then_do (call h (SetHeader ''From'' email_from)) (\<lambda>_.
     then_do (call h (SetHeader ''To'' email_to)) (\<lambda>_.
     then_do (call h (SetHeader ''X-Priority'' priority)) (\<lambda>_.
     then_do (call h (SetContent text)) (\<lambda>_.
     call h (SendMessage
       \<lparr>msg_subject = subject, msg_from = email_from, msg_to = email_to,
        msg_x_priority = priority, msg_content = text\<rparr>)))))))"

text \<open>The \<open>try\<close> block of \<open>App.run\<close>.\<close>

definition run_body :: "host \<Rightarrow> unit prog" where
  "run_body h s =
     (if command (args s) = ''cmd1'' then cmd1 s
      else if command (args s) = ''cmd2'' then cmd2 h s
      else if command (args s) = ''cmd3'' then
        then_do (oracle_connect h) (\<lambda>_.
        then_do (cmd3 h) (\<lambda>_.
        oracle_disconnect h False)) s
      else emit (Print ''Command not supported'') s)"

text \<open>The \<open>except Exception as e\<close> block of \<open>App.run\<close>, for the exception and its \<open>str\<close>.\<close>

definition handle_exception :: "host \<Rightarrow> exc_class \<Rightarrow> string \<Rightarrow> unit prog" where
  "handle_exception h c msg =
     then_do (emit (LogException (''EXCEPTION - '' @ msg) (Error c msg))) (\<lambda>_.
     then_do (lookup ''main'' ''program'') (\<lambda>program.
     then_do (lookup ''main'' ''program'') (\<lambda>from_name.
     then_do
       (\<lambda>s. case notify_text h from_name ''EXCEPTION'' (format_exc h (Error c msg) @ ''.'') of
               Inl e \<Rightarrow> (Raise e, s)
             | Inr text \<Rightarrow> (Return text, s)) (\<lambda>text.
     then_do (lookup ''email'' ''mail_host'') (\<lambda>mail_host.
     then_do (lookup ''email'' ''sender_mail'') (\<lambda>email_from.
     then_do (lookup ''email'' ''sender_mail'') (\<lambda>email_to.
     send_mail h mail_host email_from email_to (''EXCEPTION - '' @ program) text ''1'')))))))"

text \<open>\<open>App.run\<close>: \<open>except Exception\<close> lets \<open>SystemExit\<close> pass.\<close>

definition run :: "host \<Rightarrow> unit prog" where
  "run h s =
     (case run_body h s of
        (Raise (Error c msg), s1) \<Rightarrow> handle_exception h c msg s1
      | r \<Rightarrow> r)"

text \<open>The two statements under \<open>if __name__ == '__main__'\<close>, in a fresh process.\<close>

definition main :: "host \<Rightarrow> environ \<Rightarrow> unit outcome \<times> state" where
  "main h env = then_do (App_init h) (\<lambda>_. run h) (init_state env)"

text \<open>
  The exit status of the interpreter: 0 when the script runs to its end, 1 for an
  exception nobody caught, the status \<open>SystemExit\<close> carries, and none for a process whose
  image was replaced.
\<close>

fun exit_status :: "'a outcome \<Rightarrow> nat option" where
  "exit_status (Return _) = Some 0"
| "exit_status (Raise (Error _ _)) = Some 1"
| "exit_status (Raise (SystemExit n)) = Some n"
| "exit_status Replaced = None"

text \<open>The calls that release a resource of the session, and the commit.\<close>

fun is_close :: "event \<Rightarrow> bool" where
  "is_close (Close _) = True"
| "is_close _ = False"

fun is_commit :: "event \<Rightarrow> bool" where
  "is_commit (Commit _) = True"
| "is_commit _ = False"

fun is_send :: "event \<Rightarrow> bool" where
  "is_send (SendMessage _) = True"
| "is_send _ = False"

section \<open>Example runs\<close>

text \<open>
  A config file with every option the program reads, without a client path, and a
  POSIX host for an ordinary user running \<open>cmd3\<close>, where no outside call raises and the
  query yields one row with one column.
\<close>

definition example_cfg :: config where
  "example_cfg =
     [''main'' \<mapsto> [''program'' \<mapsto> Inr ''pybase'', ''log_dir'' \<mapsto> Inr ''/var/log/pybase''],
      ''syslog'' \<mapsto> [''syslog_enable'' \<mapsto> Inr ''N''],
      ''email'' \<mapsto> [''mail_host'' \<mapsto> Inr ''mail.example.org'',
                     ''sender_mail'' \<mapsto> Inr ''ops@example.org''],
      ''oracle'' \<mapsto> [''ic_path'' \<mapsto> Inr [], ''login'' \<mapsto> Inr ''scott'',
                      ''password'' \<mapsto> Inr ''tiger'', ''host'' \<mapsto> Inr ''db'',
                      ''sid'' \<mapsto> Inr ''orcl'']]"

definition example_host :: host where
  "example_host =
     \<lparr>os_name = ''posix'', is_user_an_admin = 0, getuid = 1000,
      executable = ''/usr/bin/python3'', argv = [''./pybase.py'', ''cmd3'', ''x''],
      argv_str = ''['' @ quoted ''./pybase.py'' @ '', '' @ quoted ''cmd3'' @ '', '' @ quoted ''x'' @ '']'',
      config_file = example_cfg,
      parse_args = Inr \<lparr>debug = False, command = ''cmd3'', cmd2_arg1 = [], pos_arg = ''x''\<rparr>,
      raises = (\<lambda>_ _. None), description = Some [''COLUMN1''],
      fetchone = Some [PyStr ''X''], select_sql = ''select'',
      notify_text =
        (\<lambda>from_name subject text. Inr (from_name @ '': '' @ subject @ '': '' @ text)),
      format_exc = (\<lambda>_. ''Traceback''), timestamp = ''20240101-000000000000'',
      elapsed = ''0.0''\<rparr>"

text \<open>The same host with a driver whose \<open>execute\<close> raises.\<close>

definition failing_host :: host where
  "failing_host =
     example_host\<lparr>raises := (\<lambda>_ ev. case ev of
        Execute _ _ \<Rightarrow> Some (Error DatabaseError ''ORA-00942'')
      | _ \<Rightarrow> None)\<rparr>"

text \<open>The same host run by root.\<close>

definition root_host :: host where
  "root_host = example_host\<lparr>getuid := 0\<rparr>"

text \<open>
  The same host with the Instant Client path configured, and the environment of a shell
  whose library path does not hold it.
\<close>

definition client_host :: host where
  "client_host =
     example_host\<lparr>config_file :=
       example_cfg(''oracle'' \<mapsto>
         [''ic_path'' \<mapsto> Inr ''/opt/oracle/instantclient'', ''login'' \<mapsto> Inr ''scott'',
          ''password'' \<mapsto> Inr ''tiger'', ''host'' \<mapsto> Inr ''db'', ''sid'' \<mapsto> Inr ''orcl''])\<rparr>"

definition shell_env :: environ where
  "shell_env = [''LD_LIBRARY_PATH'' \<mapsto> ''/usr/lib'']"

text \<open>
  The host with a client path that holds a NUL character, the host whose driver refuses
  to close the connection, and the failing host whose mail server cannot be reached.
\<close>

definition nul_host :: host where
  "nul_host =
     example_host\<lparr>config_file :=
       example_cfg(''oracle'' \<mapsto>
         [''ic_path'' \<mapsto> Inr (''/opt/a'' @ CHR 0x00 # ''b''), ''login'' \<mapsto> Inr ''scott'',
          ''password'' \<mapsto> Inr ''tiger'', ''host'' \<mapsto> Inr ''db'', ''sid'' \<mapsto> Inr ''orcl''])\<rparr>"

definition refusing_host :: host where
  "refusing_host =
     example_host\<lparr>raises := (\<lambda>_ ev. case ev of
        Close Con \<Rightarrow> Some (Error DatabaseError ''ORA-03114'')
      | _ \<Rightarrow> None)\<rparr>"

definition mail_down_host :: host where
  "mail_down_host =
     example_host\<lparr>raises := (\<lambda>_ ev. case ev of
        Execute _ _ \<Rightarrow> Some (Error DatabaseError ''ORA-00942'')
      | SmtpConnect _ \<Rightarrow> Some (Error OSError ''Connection refused'')
      | _ \<Rightarrow> None)\<rparr>"

text \<open>
  The state in which a process on a host comes to \<open>oracle_connect\<close> from the shell.
\<close>

definition at_connect :: "host \<Rightarrow> state" where
  "at_connect h = snd (App_init h (init_state shell_env))"

text \<open>The host on which \<open>execute\<close> ends in \<open>SystemExit\<close>.\<close>

definition exiting_host :: host where
  "exiting_host =
     example_host\<lparr>raises := (\<lambda>_ ev. case ev of
        Execute _ _ \<Rightarrow> Some (SystemExit 3)
      | _ \<Rightarrow> None)\<rparr>"

text \<open>
  The host whose driver refuses every commit and close once the connection has been
  closed.
\<close>

definition strict_host :: host where
  "strict_host =
     example_host\<lparr>raises := (\<lambda>hist ev.
        if Close Con \<in> set hist \<and> (is_commit ev \<or> is_close ev)
        then Some (Error DatabaseError ''DPI-1010: not connected'')
        else None)\<rparr>"

text \<open>
  The states of a run that comes from the shell: after \<open>oracle_connect\<close>, and where
  \<open>cmd3\<close> ends.
\<close>

definition connected :: "host \<Rightarrow> state" where
  "connected h = snd (oracle_connect h (at_connect h))"

definition failed :: "host \<Rightarrow> state" where
  "failed h = snd (cmd3 h (connected h))"

text \<open>
  The states of a session on \<open>example_host\<close>: opened by \<open>oracle_connect\<close>, and closed
  once by \<open>oracle_disconnect\<close> with the driver of \<open>strict_host\<close>.
\<close>

definition opened :: state where
  "opened = connected example_host"

definition closed_once :: state where
  "closed_once = snd (oracle_disconnect strict_host False opened)"

section \<open>Properties of the probe\<close>

lemma find_from_lower_bound: "find_from s sub i \<noteq> - 1 \<Longrightarrow> i \<le> find_from s sub i"
proof (induction s arbitrary: i)
  case Nil
  then show ?case by (simp split: if_splits)
next
  case (Cons c s)
  show ?case
  proof (cases "prefix sub (c # s)")
    case True
    then show ?thesis by simp
  next
    case False
    with Cons.prems have "find_from s sub (i + 1) \<noteq> - 1" by simp
    then have "i + 1 \<le> find_from s sub (i + 1)" by (rule Cons.IH)
    with False show ?thesis by simp
  qed
qed

lemma find_from_found_iff: "0 \<le> i \<Longrightarrow> find_from s sub i \<noteq> - 1 \<longleftrightarrow> sublist sub s"
proof (induction s arbitrary: i)
  case Nil
  then show ?case by auto
next
  case (Cons c s)
  show ?case
  proof (cases "prefix sub (c # s)")
    case True
    with Cons.prems show ?thesis by (auto simp: sublist_Cons_right)
  next
    case False
    from Cons.prems have "0 \<le> i + 1" by simp
    then have "find_from s sub (i + 1) \<noteq> - 1 \<longleftrightarrow> sublist sub s" by (rule Cons.IH)
    with False show ?thesis by (simp add: sublist_Cons_right)
  qed
qed

lemma str_find_found_iff: "str_find s sub \<noteq> - 1 \<longleftrightarrow> sublist sub s"
  by (simp add: str_find_def find_from_found_iff)

lemma get_and_find_iff:
  "m \<noteq> [] \<Longrightarrow> get_and_find env k m \<longleftrightarrow> (\<exists>p. env k = Some p \<and> sublist m p)"
  by (auto simp: get_and_find_def str_find_found_iff split: option.splits)

text \<open>
  C1. The probe is true exactly when the marker is empty, or the search-path variable
  of the platform (\<open>PATH\<close> under \<open>nt\<close>, \<open>LD_LIBRARY_PATH\<close> under \<open>posix\<close>) is set and
  holds the marker as a substring. A variable that is not set or is empty holds no
  non-empty marker, and the probe is a total function of the marker and the
  environment: it has a truth value there as everywhere.
\<close>

theorem probe_iff_marker_in_search_path:
  "name = ''nt'' \<or> name = ''posix'' \<Longrightarrow>
     (ora_check name m env \<longleftrightarrow>
        (m = [] \<or> (\<exists>p. env (search_path_var name) = Some p \<and> sublist m p))) \<and>
     (m \<noteq> [] \<and> (env (search_path_var name) = None \<or> env (search_path_var name) = Some [])
        \<longrightarrow> \<not> ora_check name m env)"
proof -
  assume name: "name = ''nt'' \<or> name = ''posix''"
  have iff: "ora_check name m env \<longleftrightarrow>
           (m = [] \<or> (\<exists>p. env (search_path_var name) = Some p \<and> sublist m p))"
  proof (cases "m = []")
    case True
    then show ?thesis by (simp add: ora_check_def)
  next
    case False
    with name show ?thesis
      by (auto simp: ora_check_def search_path_var_def get_and_find_iff)
  qed
  then show ?thesis by auto
qed

theorem probe_iff_marker_in_search_path_witness:
  "(''posix'' = ''nt'' \<or> ''posix'' = ''posix'') \<and>
   ora_check ''posix'' ''/opt/oic'' [''LD_LIBRARY_PATH'' \<mapsto> ''/usr/lib:/opt/oic''] \<and>
   \<not> ora_check ''posix'' ''/opt/oic'' Map.empty"
  using probe_iff_marker_in_search_path
          [of "''posix''" "''/opt/oic''" "[''LD_LIBRARY_PATH'' \<mapsto> ''/usr/lib:/opt/oic'']"]
        probe_iff_marker_in_search_path [of "''posix''" "''/opt/oic''" Map.empty]
  by (simp add: search_path_var_def sublist_Cons_right)

section \<open>Properties of a sequence of calls\<close>

lemma issue_all:
  "(\<forall>i<length calls. fails h (trace s @ take i calls) (calls ! i) = None) \<Longrightarrow>
     issue h calls s = (Return (), s\<lparr>trace := trace s @ calls\<rparr>)"
proof (induction calls arbitrary: s)
  case Nil
  then show ?case by simp
next
  case (Cons ev evs)
  from Cons.prems have first: "fails h (trace s) ev = None"
    by (auto dest: spec [of _ 0])
  let ?s1 = "s\<lparr>trace := trace s @ [ev]\<rparr>"
  have "\<forall>i<length evs. fails h (trace ?s1 @ take i evs) (evs ! i) = None"
  proof (intro allI impI)
    fix i assume "i < length evs"
    with Cons.prems have "fails h (trace s @ take (Suc i) (ev # evs)) ((ev # evs) ! Suc i) = None"
      by (auto dest: spec [of _ "Suc i"])
    then show "fails h (trace ?s1 @ take i evs) (evs ! i) = None" by simp
  qed
  then have "issue h evs ?s1 = (Return (), ?s1\<lparr>trace := trace ?s1 @ evs\<rparr>)"
    by (rule Cons.IH)
  with first show ?case by simp
qed

lemma issue_first:
  "i < length calls \<Longrightarrow>
   (\<forall>j<i. fails h (trace s @ take j calls) (calls ! j) = None) \<Longrightarrow>
   fails h (trace s @ take i calls) (calls ! i) = Some e \<Longrightarrow>
     issue h calls s = (Raise e, s\<lparr>trace := trace s @ take (Suc i) calls\<rparr>)"
proof (induction calls arbitrary: s i)
  case Nil
  then show ?case by simp
next
  case (Cons ev evs)
  show ?case
  proof (cases i)
    case 0
    with Cons.prems show ?thesis by simp
  next
    case (Suc i')
    let ?s1 = "s\<lparr>trace := trace s @ [ev]\<rparr>"
    from Cons.prems Suc have first: "fails h (trace s) ev = None"
      by (auto dest: spec [of _ 0])
    have len: "i' < length evs" using Cons.prems Suc by simp
    have before: "\<forall>j<i'. fails h (trace ?s1 @ take j evs) (evs ! j) = None"
    proof (intro allI impI)
      fix j assume "j < i'"
      with Cons.prems(2) Suc
      have "fails h (trace s @ take (Suc j) (ev # evs)) ((ev # evs) ! Suc j) = None"
        by (auto dest: spec [of _ "Suc j"])
      then show "fails h (trace ?s1 @ take j evs) (evs ! j) = None" by simp
    qed
    have at: "fails h (trace ?s1 @ take i' evs) (evs ! i') = Some e"
      using Cons.prems(3) Suc by simp
    from len before at
    have "issue h evs ?s1 = (Raise e, ?s1\<lparr>trace := trace ?s1 @ take (Suc i') evs\<rparr>)"
      by (rule Cons.IH)
    with first Suc show ?thesis by simp
  qed
qed

lemma issue_state:
  "\<exists>n\<le>length calls. snd (issue h calls s) = s\<lparr>trace := trace s @ take n calls\<rparr>"
proof (induction calls arbitrary: s)
  case Nil
  then show ?case by simp
next
  case (Cons ev evs)
  show ?case
  proof (cases "fails h (trace s) ev")
    case (Some e)
    then have "snd (issue h (ev # evs) s) = s\<lparr>trace := trace s @ take 1 (ev # evs)\<rparr>"
      by simp
    then show ?thesis by (intro exI [of _ 1]) simp
  next
    case None
    let ?s1 = "s\<lparr>trace := trace s @ [ev]\<rparr>"
    from Cons.IH [of ?s1] obtain n where "n \<le> length evs"
      and "snd (issue h evs ?s1) = ?s1\<lparr>trace := trace ?s1 @ take n evs\<rparr>"
      by blast
    with None have "snd (issue h (ev # evs) s) = s\<lparr>trace := trace s @ take (Suc n) (ev # evs)\<rparr>"
      by simp
    with \<open>n \<le> length evs\<close> show ?thesis by (intro exI [of _ "Suc n"]) simp
  qed
qed

lemma issue_not_replaced: "fst (issue h calls s) \<noteq> Replaced"
  by (induction calls arbitrary: s) (auto split: option.splits)

lemma call_is_issue: "call h ev = issue h [ev]"
  by (rule ext) (simp add: call_def split: option.splits)

lemma call_then_issue: "then_do (call h ev) (\<lambda>_. issue h evs) = issue h (ev # evs)"
  by (rule ext) (simp add: then_do_def call_def split: option.splits)

section \<open>Properties of the relaunch\<close>

lemma joined_value_sublist: "sublist m (joined_value env k m)"
proof -
  have "sublist m (p @ '';'' @ m)" for p
    using sublist_appendI [of m "p @ '';''" "[]"] by simp
  then show ?thesis
    by (simp add: joined_value_def split: option.splits)
qed

lemma ora_check_after:
  assumes "name = ''nt'' \<or> name = ''posix''"
  shows "ora_check name m (env(search_path_var name \<mapsto> joined_value env (search_path_var name) m))"
proof (cases "m = []")
  case True
  then show ?thesis by (simp add: ora_check_def)
next
  case False
  with assms joined_value_sublist [of m env "search_path_var name"] show ?thesis
    by (auto simp: ora_check_def search_path_var_def get_and_find_iff)
qed

text \<open>The body of \<open>oracle_connect\<close> has no \<open>os.execv\<close> in it.\<close>

lemma then_do_not_replaced:
  "fst (p s) \<noteq> Replaced \<Longrightarrow> (\<And>a s1. fst (f a s1) \<noteq> Replaced) \<Longrightarrow>
     fst (then_do p f s) \<noteq> Replaced"
  by (auto simp: then_do_def split: prod.splits outcome.splits)

lemma lookup_not_replaced: "fst (lookup sec opt s) \<noteq> Replaced"
  by (simp add: lookup_def split: sum.splits)

lemma emit_not_replaced: "fst (emit ev s) \<noteq> Replaced"
  by (simp add: emit_def)

lemma call_not_replaced: "fst (call h ev s) \<noteq> Replaced"
  by (simp add: call_def split: option.splits)

lemma connect_body_not_replaced: "fst (oracle_connect_body h s) \<noteq> Replaced"
  unfolding oracle_connect_body_def
  by (intro then_do_not_replaced lookup_not_replaced emit_not_replaced call_not_replaced) simp

lemma connect_when_check_passes:
  assumes "cfg_get (cfg s) ''oracle'' ''ic_path'' = Inr m"
    and "ora_check (os_name h) m (environ s)"
  shows "fst (oracle_connect h s) \<noteq> Replaced"
proof -
  have "oracle_connect h s = then_do (call h ImportDriver) (\<lambda>_. oracle_connect_body h) s"
    using assms by (simp add: oracle_connect_def oracle_decorator_def then_do_def lookup_def)
  moreover have "fst (then_do (call h ImportDriver) (\<lambda>_. oracle_connect_body h) s) \<noteq> Replaced"
    by (intro then_do_not_replaced call_not_replaced connect_body_not_replaced)
  ultimately show ?thesis by simp
qed

text \<open>The step after the assignment: \<open>os.execv\<close> with the arguments of the platform.\<close>

lemma connect_when_check_fails:
  assumes "cfg_get (cfg s) ''oracle'' ''ic_path'' = Inr m"
    and "\<not> ora_check (os_name h) m (environ s)"
    and "k = search_path_var (os_name h)"
    and "v = joined_value (environ s) k m"
  shows "oracle_connect h s =
           (case fails h (trace s) (Putenv k v) of
              Some e \<Rightarrow> (Raise e, s\<lparr>trace := trace s @ [Putenv k v]\<rparr>)
            | None \<Rightarrow>
                (if os_name h = ''nt'' then
                   execv h (executable h) (executable h # argv h)
                     (s\<lparr>trace := trace s @ [Putenv k v], environ := (environ s)(k \<mapsto> v)\<rparr>)
                 else
                   (case argv h of
                      [] \<Rightarrow> (Raise (Error IndexError ''list index out of range''),
                             s\<lparr>trace := trace s @ [Putenv k v], environ := (environ s)(k \<mapsto> v)\<rparr>)
                    | a # _ \<Rightarrow>
                        execv h a (argv h)
                          (s\<lparr>trace := trace s @ [Putenv k v],
                             environ := (environ s)(k \<mapsto> v)\<rparr>))))"
  using assms
  by (simp add: oracle_connect_def oracle_decorator_def then_do_def lookup_def add_to_var_def
      call_def search_path_var_def split: option.splits list.splits)

lemma execv_environ: "environ (snd (execv h path argl s)) = environ s"
  by (simp add: execv_def split: option.splits)

lemma execv_outcome: "fst (execv h path argl s) = Replaced \<or> (\<exists>e. fst (execv h path argl s) = Raise e)"
  by (simp add: execv_def split: option.splits)

text \<open>
  C2. Relaunch convergence. Under \<open>os.name\<close> \<open>nt\<close> or \<open>posix\<close>, for a non-empty
  configured marker \<open>m\<close> and an environment in which the probe is false,
  \<open>oracle_connect\<close> assigns the joined value \<open>v\<close> to the variable \<open>k\<close> of the platform.
  When the assignment is accepted, the environment it leaves holds \<open>v\<close> under \<open>k\<close> and
  the probe for \<open>m\<close> is true over it. When the assignment raises (a value with a NUL
  character, or a refusal of the host), \<open>oracle_connect\<close> raises that error with the
  environment as it was, and no process is started. Either way the chain of processes
  ends after at most one relaunch: one when the first process ends in \<open>os.execv\<close>, none
  otherwise.
\<close>

theorem relaunch_converges:
  assumes "os_name h = ''nt'' \<or> os_name h = ''posix''"
    and "cfg_get (cfg s) ''oracle'' ''ic_path'' = Inr m"
    and "m \<noteq> []"
    and "\<not> ora_check (os_name h) m (environ s)"
    and "k = search_path_var (os_name h)"
    and "v = joined_value (environ s) k m"
  shows "(fails h (trace s) (Putenv k v) = None \<longrightarrow>
            environ (snd (oracle_connect h s)) = (environ s)(k \<mapsto> v) \<and>
            ora_check (os_name h) m (environ (snd (oracle_connect h s)))) \<and>
         (\<forall>e. fails h (trace s) (Putenv k v) = Some e \<longrightarrow>
            oracle_connect h s = (Raise e, s\<lparr>trace := trace s @ [Putenv k v]\<rparr>)) \<and>
         relaunch_chain h s 0 = Some (if fst (oracle_connect h s) = Replaced then 1 else 0)"
proof (intro conjI impI allI)
  note unfold = connect_when_check_fails [OF assms(2) assms(4) assms(5) assms(6)]
  have after: "ora_check (os_name h) m ((environ s)(k \<mapsto> v))"
    using ora_check_after [OF assms(1), of m "environ s"] assms(5,6) by simp
  show env: "environ (snd (oracle_connect h s)) = (environ s)(k \<mapsto> v)"
    if "fails h (trace s) (Putenv k v) = None"
    using that by (simp add: unfold execv_environ split: list.splits)
  show "ora_check (os_name h) m (environ (snd (oracle_connect h s)))"
    if "fails h (trace s) (Putenv k v) = None"
    using env [OF that] after by simp
  show "oracle_connect h s = (Raise e, s\<lparr>trace := trace s @ [Putenv k v]\<rparr>)"
    if "fails h (trace s) (Putenv k v) = Some e" for e
    using that by (simp add: unfold)
  show "relaunch_chain h s 0 = Some (if fst (oracle_connect h s) = Replaced then 1 else 0)"
  proof (cases "fst (oracle_connect h s) = Replaced")
    case False
    then show ?thesis by (subst relaunch_chain.simps) simp
  next
    case True
    let ?s1 = "s\<lparr>environ := environ (snd (oracle_connect h s))\<rparr>"
    from True have accepted: "fails h (trace s) (Putenv k v) = None"
      by (auto simp: unfold split: option.splits)
    have "cfg_get (cfg ?s1) ''oracle'' ''ic_path'' = Inr m"
      using assms(2) by simp
    moreover have "ora_check (os_name h) m (environ ?s1)"
      using env [OF accepted] after by simp
    ultimately have stop: "fst (oracle_connect h ?s1) \<noteq> Replaced"
      by (rule connect_when_check_passes)
    have "relaunch_chain h s 0 = relaunch_chain h ?s1 (Suc 0)"
      using True by (subst relaunch_chain.simps) simp
    also have "\<dots> = Some (Suc 0)"
      using stop by (subst relaunch_chain.simps) simp
    finally show ?thesis using True by simp
  qed
qed

theorem relaunch_converges_witness:
  "ora_check (os_name client_host) ''/opt/oracle/instantclient''
     (environ (snd (oracle_connect client_host (at_connect client_host)))) \<and>
   relaunch_chain client_host (at_connect client_host) 0 = Some 1 \<and>
   oracle_connect nul_host (at_connect nul_host) =
     (Raise (Error ValueError ''embedded null byte''),
      (at_connect nul_host)\<lparr>trace := trace (at_connect nul_host) @
         [Putenv ''LD_LIBRARY_PATH'' (''/usr/lib;/opt/a'' @ CHR 0x00 # ''b'')]\<rparr>) \<and>
   relaunch_chain nul_host (at_connect nul_host) 0 = Some 0"
proof -
  let ?s = "at_connect client_host"
  let ?m = "''/opt/oracle/instantclient''"
  have os: "os_name client_host = ''nt'' \<or> os_name client_host = ''posix''"
    by code_simp
  have path: "cfg_get (cfg ?s) ''oracle'' ''ic_path'' = Inr ?m"
    by code_simp
  have check: "\<not> ora_check (os_name client_host) ?m (environ ?s)"
    by code_simp
  have accepted: "fails client_host (trace ?s)
      (Putenv (search_path_var (os_name client_host))
         (joined_value (environ ?s) (search_path_var (os_name client_host)) ?m)) = None"
    by code_simp
  have replaced: "fst (oracle_connect client_host ?s) = Replaced"
    by code_simp
  have nonempty: "?m \<noteq> []"
    by simp
  note first = relaunch_converges [OF os path nonempty check refl refl]
  from first accepted
  have 1: "ora_check (os_name client_host) ?m (environ (snd (oracle_connect client_host ?s)))"
    by blast
  from first replaced have 2: "relaunch_chain client_host ?s 0 = Some 1"
    by simp
  let ?t = "at_connect nul_host"
  let ?n = "''/opt/a'' @ CHR 0x00 # ''b''"
  have os': "os_name nul_host = ''nt'' \<or> os_name nul_host = ''posix''"
    by code_simp
  have path': "cfg_get (cfg ?t) ''oracle'' ''ic_path'' = Inr ?n"
    by code_simp
  have check': "\<not> ora_check (os_name nul_host) ?n (environ ?t)"
    by code_simp
  have var: "search_path_var (os_name nul_host) = ''LD_LIBRARY_PATH''"
    by code_simp
  have val: "joined_value (environ ?t) ''LD_LIBRARY_PATH'' ?n = ''/usr/lib;/opt/a'' @ CHR 0x00 # ''b''"
    by code_simp
  have refused: "fails nul_host (trace ?t)
      (Putenv ''LD_LIBRARY_PATH'' (''/usr/lib;/opt/a'' @ CHR 0x00 # ''b'')) =
        Some (Error ValueError ''embedded null byte'')"
    by code_simp
  have nonempty': "?n \<noteq> []"
    by simp
  note second = relaunch_converges [OF os' path' nonempty' check' var [symmetric] val [symmetric]]
  from second refused
  have 3: "oracle_connect nul_host ?t =
     (Raise (Error ValueError ''embedded null byte''),
      ?t\<lparr>trace := trace ?t @ [Putenv ''LD_LIBRARY_PATH'' (''/usr/lib;/opt/a'' @ CHR 0x00 # ''b'')]\<rparr>)"
    by simp
  from second 3 have 4: "relaunch_chain nul_host ?t 0 = Some 0"
    by simp
  from 1 2 3 4 show ?thesis by blast
qed

text \<open>
  C3. On a POSIX host whose \<open>LD_LIBRARY_PATH\<close> is \<open>/usr/lib\<close>, with the client path
  \<open>/opt/oracle/instantclient\<close> configured, the run ends in \<open>os.execv\<close> of \<open>sys.argv[0]\<close>
  with \<open>sys.argv\<close>, and the variable it leaves to the new process joins the old value
  and the client path with a semicolon, not with the colon that separates the entries
  of a path list on POSIX.
\<close>

theorem posix_relaunch_joins_with_semicolon:
  "fst (main client_host shell_env) = Replaced \<and>
   last (trace (snd (main client_host shell_env))) =
     Execv ''./pybase.py'' [''./pybase.py'', ''cmd3'', ''x''] \<and>
   environ (snd (main client_host shell_env)) ''LD_LIBRARY_PATH'' =
     Some ''/usr/lib;/opt/oracle/instantclient'' \<and>
   environ (snd (main client_host shell_env)) ''LD_LIBRARY_PATH'' \<noteq>
     Some ''/usr/lib:/opt/oracle/instantclient''"
  by code_simp

section \<open>Properties of the session\<close>

text \<open>
  On a session whose three fields are set, \<open>oracle_disconnect\<close> is its calls made one
  after the other: the commit when asked for, then the three \<open>close\<close> calls.
\<close>

lemma disconnect_issue:
  assumes "ora_con s = Some c" "ora_select_cur s = Some r" "ora_update_cur s = Some w"
  shows "oracle_disconnect h commit s =
           issue h ((if commit then [Commit c] else []) @ [Close w, Close r, Close c]) s"
  using assms
  by (simp add: oracle_disconnect_def then_do_def on_field_def call_def split: option.splits)

text \<open>
  C6. Session close on an open session (connection \<open>c\<close>, read cursor \<open>r\<close>, write cursor
  \<open>w\<close>) makes its calls in this order: the commit on the connection, if and only if
  \<open>commit\<close> is true, then \<open>close\<close> on the write cursor, on the read cursor, on the
  connection. When none of them raises, all are made and the close returns. Otherwise
  the close ends with the first call that raises: the calls up to and with that one have
  been made, none after it, and its error is raised.
\<close>

theorem disconnect_commits_first_then_releases_in_order:
  assumes "ora_con s = Some c" "ora_select_cur s = Some r" "ora_update_cur s = Some w"
    and "calls = (if commit then [Commit c] else []) @ [Close w, Close r, Close c]"
  shows "((\<forall>i<length calls. fails h (trace s @ take i calls) (calls ! i) = None) \<longrightarrow>
            oracle_disconnect h commit s = (Return (), s\<lparr>trace := trace s @ calls\<rparr>)) \<and>
         (\<forall>i e. i < length calls \<and>
                (\<forall>j<i. fails h (trace s @ take j calls) (calls ! j) = None) \<and>
                fails h (trace s @ take i calls) (calls ! i) = Some e \<longrightarrow>
            oracle_disconnect h commit s =
              (Raise e, s\<lparr>trace := trace s @ take (Suc i) calls\<rparr>))"
proof -
  have eq: "oracle_disconnect h commit s = issue h calls s"
    using assms by (simp add: disconnect_issue)
  show ?thesis
    unfolding eq by (auto intro: issue_all issue_first)
qed

text \<open>The session of the examples, and a driver that accepts its calls.\<close>

lemma opened_fields:
  "ora_con opened = Some Con" "ora_select_cur opened = Some (Cur 0)"
  "ora_update_cur opened = Some (Cur 1)"
  by code_simp+

lemma session_calls_accepted:
  "is_commit ev \<or> is_close ev \<Longrightarrow> fails example_host hist ev = None"
  by (cases ev) (simp_all add: fails_def refused_def example_host_def)

theorem disconnect_commits_first_then_releases_in_order_witness:
  "oracle_disconnect example_host True opened =
     (Return (),
      opened\<lparr>trace := trace opened @ [Commit Con, Close (Cur 1), Close (Cur 0), Close Con]\<rparr>) \<and>
   oracle_disconnect refusing_host True opened =
     (Raise (Error DatabaseError ''ORA-03114''),
      opened\<lparr>trace := trace opened @ [Commit Con, Close (Cur 1), Close (Cur 0), Close Con]\<rparr>)"
proof -
  let ?calls = "[Commit Con, Close (Cur 1), Close (Cur 0), Close Con]"
  have calls: "?calls = (if True then [Commit Con] else []) @ [Close (Cur 1), Close (Cur 0), Close Con]"
    by simp
  have quiet: "\<forall>i<length ?calls. fails example_host (trace opened @ take i ?calls) (?calls ! i) = None"
    by (auto simp: less_Suc_eq session_calls_accepted)
  from disconnect_commits_first_then_releases_in_order [OF opened_fields calls, of example_host] quiet
  have 1: "oracle_disconnect example_host True opened =
     (Return (), opened\<lparr>trace := trace opened @ ?calls\<rparr>)"
    by blast
  have before: "\<forall>j<3. fails refusing_host (trace opened @ take j ?calls) (?calls ! j) = None"
    by (auto simp: less_Suc_eq numeral_3_eq_3 fails_def refused_def refusing_host_def)
  have at: "fails refusing_host (trace opened @ take 3 ?calls) (?calls ! 3) =
              Some (Error DatabaseError ''ORA-03114'')"
    by (simp add: fails_def refused_def refusing_host_def)
  from disconnect_commits_first_then_releases_in_order [OF opened_fields calls, of refusing_host]
  have "3 < length ?calls \<and>
        (\<forall>j<3. fails refusing_host (trace opened @ take j ?calls) (?calls ! j) = None) \<and>
        fails refusing_host (trace opened @ take 3 ?calls) (?calls ! 3) =
          Some (Error DatabaseError ''ORA-03114'') \<longrightarrow>
        oracle_disconnect refusing_host True opened =
          (Raise (Error DatabaseError ''ORA-03114''),
           opened\<lparr>trace := trace opened @ take (Suc 3) ?calls\<rparr>)"
    by blast
  with before at have 2: "oracle_disconnect refusing_host True opened =
     (Raise (Error DatabaseError ''ORA-03114''), opened\<lparr>trace := trace opened @ ?calls\<rparr>)"
    by simp
  from 1 2 show ?thesis by (rule conjI)
qed

text \<open>
  C8, as the code has it. On a session that was never opened (the three fields still
  \<open>None\<close>) session close raises \<open>AttributeError\<close> at its first call, \<open>commit\<close> or \<open>close\<close>
  on \<open>None\<close>, and leaves the state as it was: no call reaches the driver. On a session
  that a returned close, with or without commit, has closed, the three fields still hold
  the same objects, and a further close, again with or without commit, makes the calls
  of a close on them once more, in the same order: what becomes of it is the driver's
  answer. It returns when the driver accepts every call, and ends with the first call
  the driver refuses, raising that error.
\<close>

theorem disconnect_without_open_session:
  assumes "calls = (if again then [Commit c] else []) @ [Close w, Close r, Close c]"
  shows
  "(ora_con s = None \<and> ora_select_cur s = None \<and> ora_update_cur s = None \<longrightarrow>
      oracle_disconnect h commit s =
        (Raise (Error AttributeError
           (quoted ''NoneType'' @ '' object has no attribute '' @
            quoted (if commit then ''commit'' else ''close''))), s)) \<and>
   (ora_con s = Some c \<and> ora_select_cur s = Some r \<and> ora_update_cur s = Some w \<and>
    oracle_disconnect h commit s = (Return (), s1) \<longrightarrow>
      ora_con s1 = Some c \<and> ora_select_cur s1 = Some r \<and> ora_update_cur s1 = Some w \<and>
      ((\<forall>i<length calls. fails h (trace s1 @ take i calls) (calls ! i) = None) \<longrightarrow>
         oracle_disconnect h again s1 = (Return (), s1\<lparr>trace := trace s1 @ calls\<rparr>)) \<and>
      (\<forall>i e. i < length calls \<and>
             (\<forall>j<i. fails h (trace s1 @ take j calls) (calls ! j) = None) \<and>
             fails h (trace s1 @ take i calls) (calls ! i) = Some e \<longrightarrow>
         oracle_disconnect h again s1 =
           (Raise e, s1\<lparr>trace := trace s1 @ take (Suc i) calls\<rparr>)))"
proof (intro conjI impI)
  assume "ora_con s = None \<and> ora_select_cur s = None \<and> ora_update_cur s = None"
  then show "oracle_disconnect h commit s =
        (Raise (Error AttributeError
           (quoted ''NoneType'' @ '' object has no attribute '' @
            quoted (if commit then ''commit'' else ''close''))), s)"
    by (simp add: oracle_disconnect_def then_do_def on_field_def)
next
  assume a: "ora_con s = Some c \<and> ora_select_cur s = Some r \<and> ora_update_cur s = Some w \<and>
    oracle_disconnect h commit s = (Return (), s1)"
  let ?first = "(if commit then [Commit c] else []) @ [Close w, Close r, Close c]"
  have "oracle_disconnect h commit s = issue h ?first s"
    using a by (intro disconnect_issue) simp_all
  then have "snd (issue h ?first s) = snd (oracle_disconnect h commit s)"
    by (simp only:)
  also from a have "\<dots> = s1"
    by (simp only: snd_conv)
  finally have "snd (issue h ?first s) = s1" .
  with issue_state [of ?first h s] obtain n where "s1 = s\<lparr>trace := trace s @ take n ?first\<rparr>"
    by auto
  with a have f: "ora_con s1 = Some c" "ora_select_cur s1 = Some r" "ora_update_cur s1 = Some w"
    by simp_all
  show "ora_con s1 = Some c" "ora_select_cur s1 = Some r" "ora_update_cur s1 = Some w"
    by (rule f)+
  have eq: "oracle_disconnect h again s1 = issue h calls s1"
    unfolding assms using f by (rule disconnect_issue)
  show "oracle_disconnect h again s1 = (Return (), s1\<lparr>trace := trace s1 @ calls\<rparr>)"
    if "\<forall>i<length calls. fails h (trace s1 @ take i calls) (calls ! i) = None"
    unfolding eq using that by (rule issue_all)
  show "\<forall>i e. i < length calls \<and>
             (\<forall>j<i. fails h (trace s1 @ take j calls) (calls ! j) = None) \<and>
             fails h (trace s1 @ take i calls) (calls ! i) = Some e \<longrightarrow>
         oracle_disconnect h again s1 =
           (Raise e, s1\<lparr>trace := trace s1 @ take (Suc i) calls\<rparr>)"
    unfolding eq by (auto intro: issue_first)
qed

theorem disconnect_without_open_session_witness:
  "oracle_disconnect strict_host True (init_state shell_env) =
     (Raise (Error AttributeError
        (quoted ''NoneType'' @ '' object has no attribute '' @ quoted ''commit'')),
      init_state shell_env) \<and>
   ora_update_cur closed_once = Some (Cur 1) \<and>
   oracle_disconnect strict_host True closed_once =
     (Raise (Error DatabaseError ''DPI-1010: not connected''),
      closed_once\<lparr>trace := trace closed_once @ [Commit Con]\<rparr>)"
proof -
  let ?calls = "[Commit Con, Close (Cur 1), Close (Cur 0), Close Con]"
  have calls: "?calls = (if True then [Commit Con] else []) @ [Close (Cur 1), Close (Cur 0), Close Con]"
    by simp
  have unopened: "ora_con (init_state shell_env) = None \<and>
      ora_select_cur (init_state shell_env) = None \<and>
      ora_update_cur (init_state shell_env) = None"
    by (simp add: init_state_def)
  have "fst (oracle_disconnect strict_host False opened) = Return ()"
    by code_simp
  then have closed: "ora_con opened = Some Con \<and> ora_select_cur opened = Some (Cur 0) \<and>
      ora_update_cur opened = Some (Cur 1) \<and>
      oracle_disconnect strict_host False opened = (Return (), closed_once)"
    by (simp add: closed_once_def prod_eq_iff opened_fields)
  have refused: "0 < length ?calls \<and>
      (\<forall>j<0. fails strict_host (trace closed_once @ take j ?calls) (?calls ! j) = None) \<and>
      fails strict_host (trace closed_once @ take 0 ?calls) (?calls ! 0) =
        Some (Error DatabaseError ''DPI-1010: not connected'')"
  proof -
    have "fails strict_host (trace closed_once) (Commit Con) =
            Some (Error DatabaseError ''DPI-1010: not connected'')"
      by code_simp
    then show ?thesis by simp
  qed
  have 1: "oracle_disconnect strict_host True (init_state shell_env) =
     (Raise (Error AttributeError
        (quoted ''NoneType'' @ '' object has no attribute '' @ quoted ''commit'')),
      init_state shell_env)"
    using unopened
      disconnect_without_open_session
        [OF calls, where s = "init_state shell_env" and h = strict_host and commit = True,
         THEN conjunct1]
    by simp
  note second = disconnect_without_open_session
        [OF calls, where s = opened and h = strict_host and commit = False
           and ?s1.0 = closed_once, THEN conjunct2, THEN mp, OF closed]
  from second have 2: "ora_update_cur closed_once = Some (Cur 1)"
    by blast
  from second have "0 < length ?calls \<and>
      (\<forall>j<0. fails strict_host (trace closed_once @ take j ?calls) (?calls ! j) = None) \<and>
      fails strict_host (trace closed_once @ take 0 ?calls) (?calls ! 0) =
        Some (Error DatabaseError ''DPI-1010: not connected'') \<longrightarrow>
      oracle_disconnect strict_host True closed_once =
        (Raise (Error DatabaseError ''DPI-1010: not connected''),
         closed_once\<lparr>trace := trace closed_once @ take (Suc 0) ?calls\<rparr>)"
    by blast
  with refused have 3: "oracle_disconnect strict_host True closed_once =
     (Raise (Error DatabaseError ''DPI-1010: not connected''),
      closed_once\<lparr>trace := trace closed_once @ [Commit Con]\<rparr>)"
    by simp
  from 1 2 3 show ?thesis by blast
qed

text \<open>
  Against C8 as stated: a session close on the object \<open>App()\<close> has just built, with no
  session ever opened, raises.
\<close>

theorem disconnect_never_opened_raises:
  "fst (oracle_disconnect example_host False (init_state shell_env)) =
     Raise (Error AttributeError
       (quoted ''NoneType'' @ '' object has no attribute '' @ quoted ''close''))"
  by code_simp

section \<open>Properties of start-up\<close>

text \<open>
  C9. For a user with administrator or root rights (\<open>IsUserAnAdmin() != 0\<close> under \<open>nt\<close>,
  \<open>getuid() == 0\<close> elsewhere) the program ends with the \<open>RuntimeError\<close> of \<open>check_admin\<close>
  in the state the constructor started from: the config file has not been read, no
  logger has been created, no command has run, nothing has been called, and the exit
  status is 1.
\<close>

theorem admin_refused_before_anything_runs:
  "is_admin h \<Longrightarrow>
     main h env =
       (Raise (Error RuntimeError ''Error! User has admin/root rights!''), init_state env) \<and>
     trace (snd (main h env)) = [] \<and>
     exit_status (fst (main h env)) = Some 1"
  by (simp add: main_def App_init_def then_do_def check_admin_def init_state_def)

theorem admin_refused_before_anything_runs_witness:
  "main root_host shell_env =
     (Raise (Error RuntimeError ''Error! User has admin/root rights!''), init_state shell_env) \<and>
   trace (snd (main root_host shell_env)) = [] \<and>
   exit_status (fst (main root_host shell_env)) = Some 1"
proof -
  have "is_admin root_host" by code_simp
  then show ?thesis by (rule admin_refused_before_anything_runs)
qed

section \<open>Properties of the run\<close>

text \<open>\<open>send_mail\<close> is its seven calls made one after the other.\<close>

lemma send_mail_issue:
  "send_mail h mail_host email_from email_to subject text priority =
     issue h [SmtpConnect mail_host, SetHeader ''Subject'' subject,
              SetHeader ''From'' email_from, SetHeader ''To'' email_to,
              SetHeader ''X-Priority'' priority, SetContent text,
              SendMessage \<lparr>msg_subject = subject, msg_from = email_from, msg_to = email_to,
                           msg_x_priority = priority, msg_content = text\<rparr>]"
  unfolding send_mail_def
  by (subst call_is_issue [of h "SendMessage _"]) (simp only: call_then_issue)

text \<open>
  The \<open>cmd3\<close> branch of the \<open>try\<close> block once \<open>oracle_connect\<close> has returned:
  \<open>oracle_disconnect\<close> follows a \<open>cmd3\<close> that returns, and nothing follows one that
  raises.
\<close>

lemma run_body_cmd3:
  assumes "command (args s) = ''cmd3''" and "oracle_connect h s = (Return (), s1)"
  shows "run_body h s =
           (case cmd3 h s1 of
              (Return _, s2) \<Rightarrow> oracle_disconnect h False s2
            | (Raise e, s2) \<Rightarrow> (Raise e, s2)
            | (Replaced, s2) \<Rightarrow> (Replaced, s2))"
  using assms by (simp add: run_body_def then_do_def split: prod.splits outcome.splits)

text \<open>
  With the three options it reads in the config and the text of the notification, the
  handler is the log record and then the calls of \<open>send_mail\<close>.
\<close>

lemma handle_exception_issue:
  assumes "cfg_get (cfg s) ''main'' ''program'' = Inr p"
    and "notify_text h p ''EXCEPTION'' (format_exc h (Error c msg) @ ''.'') = Inr text"
    and "cfg_get (cfg s) ''email'' ''mail_host'' = Inr mh"
    and "cfg_get (cfg s) ''email'' ''sender_mail'' = Inr sm"
  shows "handle_exception h c msg s =
     issue h
       [SmtpConnect mh, SetHeader ''Subject'' (''EXCEPTION - '' @ p), SetHeader ''From'' sm,
        SetHeader ''To'' sm, SetHeader ''X-Priority'' ''1'', SetContent text,
        SendMessage
          \<lparr>msg_subject = ''EXCEPTION - '' @ p, msg_from = sm, msg_to = sm,
           msg_x_priority = ''1'', msg_content = text\<rparr>]
       (s\<lparr>trace := trace s @ [LogException (''EXCEPTION - '' @ msg) (Error c msg)]\<rparr>)"
  using assms
  by (simp add: handle_exception_def then_do_def emit_def lookup_def send_mail_issue
      del: issue.simps)

text \<open>
  The handler of \<open>run\<close> logs, reads the config and mails: whatever it meets, it changes
  nothing but the record of calls, and adds no call on the session to it.
\<close>

lemma handle_exception_state:
  "\<exists>evs. snd (handle_exception h c msg s) = s\<lparr>trace := trace s @ evs\<rparr> \<and>
         filter is_close evs = [] \<and> filter is_commit evs = []"
proof (cases "\<exists>p text mh sm. cfg_get (cfg s) ''main'' ''program'' = Inr p \<and>
    notify_text h p ''EXCEPTION'' (format_exc h (Error c msg) @ ''.'') = Inr text \<and>
    cfg_get (cfg s) ''email'' ''mail_host'' = Inr mh \<and>
    cfg_get (cfg s) ''email'' ''sender_mail'' = Inr sm")
  case False
  let ?log = "LogException (''EXCEPTION - '' @ msg) (Error c msg)"
  from False have "snd (handle_exception h c msg s) = s\<lparr>trace := trace s @ [?log]\<rparr>"
    by (auto simp: handle_exception_def then_do_def emit_def lookup_def split: sum.splits)
  then show ?thesis by (intro exI [of _ "[?log]"]) simp
next
  case True
  then obtain p content mh sm where "cfg_get (cfg s) ''main'' ''program'' = Inr p"
    and "notify_text h p ''EXCEPTION'' (format_exc h (Error c msg) @ ''.'') = Inr content"
    and "cfg_get (cfg s) ''email'' ''mail_host'' = Inr mh"
    and "cfg_get (cfg s) ''email'' ''sender_mail'' = Inr sm"
    by blast
  note eq = handle_exception_issue [OF this]
  let ?log = "LogException (''EXCEPTION - '' @ msg) (Error c msg)"
  let ?s1 = "s\<lparr>trace := trace s @ [?log]\<rparr>"
  let ?calls = "[SmtpConnect mh, SetHeader ''Subject'' (''EXCEPTION - '' @ p), SetHeader ''From'' sm,
        SetHeader ''To'' sm, SetHeader ''X-Priority'' ''1'', SetContent content,
        SendMessage
          \<lparr>msg_subject = ''EXCEPTION - '' @ p, msg_from = sm, msg_to = sm,
           msg_x_priority = ''1'', msg_content = content\<rparr>]"
  from issue_state [of ?calls h ?s1] obtain n
    where "snd (issue h ?calls ?s1) = ?s1\<lparr>trace := trace ?s1 @ take n ?calls\<rparr>"
    by blast
  then have st: "snd (handle_exception h c msg s) = s\<lparr>trace := trace s @ ?log # take n ?calls\<rparr>"
    unfolding eq by simp
  have "set (take n ?calls) \<subseteq> set ?calls" by (rule set_take_subset)
  then have "filter is_close (take n ?calls) = []" "filter is_commit (take n ?calls) = []"
    by (auto simp: filter_empty_conv)
  with st show ?thesis by (intro exI [of _ "?log # take n ?calls"]) simp
qed

text \<open>
  C4, as the code has it. When the body of the DB command raises after the session was
  opened, session close does not run: the \<open>try\<close> block ends with that error in the state
  the body left. An error that \<open>except Exception\<close> catches is handled by the \<open>except\<close>
  block, and \<open>SystemExit\<close> leaves \<open>run\<close> as it is. Either way \<open>run\<close> ends in the state the
  body left but for the calls it adds to the record, and these hold no release and no
  commit: the three fields of the session are as the body left them.
\<close>

theorem no_release_when_command_raises:
  assumes "command (args s) = ''cmd3''"
    and "oracle_connect h s = (Return (), s1)"
    and "cmd3 h s1 = (Raise e, s2)"
  shows "run_body h s = (Raise e, s2) \<and>
         run h s =
           (case e of
              Error c msg \<Rightarrow> handle_exception h c msg s2
            | SystemExit n \<Rightarrow> (Raise (SystemExit n), s2)) \<and>
         (\<exists>evs. snd (run h s) = s2\<lparr>trace := trace s2 @ evs\<rparr> \<and>
                filter is_close evs = [] \<and> filter is_commit evs = [])"
proof (intro conjI)
  from assms show body: "run_body h s = (Raise e, s2)"
    by (simp add: run_body_cmd3)
  then show run: "run h s =
           (case e of
              Error c msg \<Rightarrow> handle_exception h c msg s2
            | SystemExit n \<Rightarrow> (Raise (SystemExit n), s2))"
    by (simp add: run_def split: error.splits)
  show "\<exists>evs. snd (run h s) = s2\<lparr>trace := trace s2 @ evs\<rparr> \<and>
              filter is_close evs = [] \<and> filter is_commit evs = []"
  proof (cases e)
    case (Error c msg)
    with run handle_exception_state [of h c msg s2] show ?thesis by simp
  next
    case (SystemExit n)
    with run show ?thesis by (intro exI [of _ "[]"]) simp
  qed
qed

text \<open>
  The three example runs in which \<open>execute\<close> raises: the steps up to the error.
\<close>

lemma failing_run_steps:
  "command (args (at_connect failing_host)) = ''cmd3''"
  "oracle_connect failing_host (at_connect failing_host) = (Return (), connected failing_host)"
  "cmd3 failing_host (connected failing_host) =
     (Raise (Error DatabaseError ''ORA-00942''), failed failing_host)"
proof -
  show "command (args (at_connect failing_host)) = ''cmd3''"
    by code_simp
  have "fst (oracle_connect failing_host (at_connect failing_host)) = Return ()"
    by code_simp
  then show "oracle_connect failing_host (at_connect failing_host) =
      (Return (), connected failing_host)"
    by (simp add: connected_def prod_eq_iff)
  have "fst (cmd3 failing_host (connected failing_host)) = Raise (Error DatabaseError ''ORA-00942'')"
    by code_simp
  then show "cmd3 failing_host (connected failing_host) =
      (Raise (Error DatabaseError ''ORA-00942''), failed failing_host)"
    by (simp add: failed_def prod_eq_iff)
qed

lemma mail_down_run_steps:
  "command (args (at_connect mail_down_host)) = ''cmd3''"
  "oracle_connect mail_down_host (at_connect mail_down_host) =
     (Return (), connected mail_down_host)"
  "cmd3 mail_down_host (connected mail_down_host) =
     (Raise (Error DatabaseError ''ORA-00942''), failed mail_down_host)"
proof -
  show "command (args (at_connect mail_down_host)) = ''cmd3''"
    by code_simp
  have "fst (oracle_connect mail_down_host (at_connect mail_down_host)) = Return ()"
    by code_simp
  then show "oracle_connect mail_down_host (at_connect mail_down_host) =
      (Return (), connected mail_down_host)"
    by (simp add: connected_def prod_eq_iff)
  have "fst (cmd3 mail_down_host (connected mail_down_host)) =
          Raise (Error DatabaseError ''ORA-00942'')"
    by code_simp
  then show "cmd3 mail_down_host (connected mail_down_host) =
      (Raise (Error DatabaseError ''ORA-00942''), failed mail_down_host)"
    by (simp add: failed_def prod_eq_iff)
qed

lemma exiting_run_steps:
  "command (args (at_connect exiting_host)) = ''cmd3''"
  "oracle_connect exiting_host (at_connect exiting_host) = (Return (), connected exiting_host)"
  "cmd3 exiting_host (connected exiting_host) = (Raise (SystemExit 3), failed exiting_host)"
proof -
  show "command (args (at_connect exiting_host)) = ''cmd3''"
    by code_simp
  have "fst (oracle_connect exiting_host (at_connect exiting_host)) = Return ()"
    by code_simp
  then show "oracle_connect exiting_host (at_connect exiting_host) =
      (Return (), connected exiting_host)"
    by (simp add: connected_def prod_eq_iff)
  have "fst (cmd3 exiting_host (connected exiting_host)) = Raise (SystemExit 3)"
    by code_simp
  then show "cmd3 exiting_host (connected exiting_host) =
      (Raise (SystemExit 3), failed exiting_host)"
    by (simp add: failed_def prod_eq_iff)
qed

theorem no_release_when_command_raises_witness:
  "run_body failing_host (at_connect failing_host) =
     (Raise (Error DatabaseError ''ORA-00942''), failed failing_host) \<and>
   run failing_host (at_connect failing_host) =
     handle_exception failing_host DatabaseError ''ORA-00942'' (failed failing_host) \<and>
   (\<exists>evs. snd (run failing_host (at_connect failing_host)) =
            (failed failing_host)\<lparr>trace := trace (failed failing_host) @ evs\<rparr> \<and>
          filter is_close evs = [] \<and> filter is_commit evs = []) \<and>
   run exiting_host (at_connect exiting_host) = (Raise (SystemExit 3), failed exiting_host)"
proof -
  note first = no_release_when_command_raises [OF failing_run_steps, unfolded error.case]
  note second = no_release_when_command_raises [OF exiting_run_steps, unfolded error.case]
  from second
  have "run exiting_host (at_connect exiting_host) = (Raise (SystemExit 3), failed exiting_host)"
    by (rule conjunct2 [THEN conjunct1])
  with first show ?thesis by blast
qed

text \<open>
  Against C4 as stated: the run in which \<open>execute\<close> raises after the connection and both
  cursors were opened. It leaves the connection and the cursors in their fields, and the
  calls it made end with the log record and the mail: there is no \<open>close\<close> among them.
\<close>

theorem session_left_open_when_execute_raises:
  "trace (snd (main failing_host shell_env)) =
     [ReadConfig, ParseArgs,
      OpenLogFile ''/var/log/pybase'' ''info-20240101-000000000000.log'',
      LogInfo ''Start pybase'',
      LogInfo (''Command line - ['' @ quoted ''./pybase.py'' @ '', '' @ quoted ''cmd3'' @
               '', '' @ quoted ''x'' @ '']''),
      ImportDriver,
      LogInfo ''Init Oracle. Database - scott@db/orcl'',
      Connect ''scott/tiger@db/orcl'', NewCursor (Cur 0), NewCursor (Cur 1),
      LogInfo ''>>>>> Begin cmd3() <<<<<'',
      Execute (Cur 0) ''select'',
      LogException ''EXCEPTION - ORA-00942'' (Error DatabaseError ''ORA-00942''),
      SmtpConnect ''mail.example.org'',
      SetHeader ''Subject'' ''EXCEPTION - pybase'',
      SetHeader ''From'' ''ops@example.org'',
      SetHeader ''To'' ''ops@example.org'',
      SetHeader ''X-Priority'' ''1'',
      SetContent ''pybase: EXCEPTION: Traceback.'',
      SendMessage
        \<lparr>msg_subject = ''EXCEPTION - pybase'', msg_from = ''ops@example.org'',
         msg_to = ''ops@example.org'', msg_x_priority = ''1'',
         msg_content = ''pybase: EXCEPTION: Traceback.''\<rparr>] \<and>
   filter is_close (trace (snd (main failing_host shell_env))) = [] \<and>
   ora_con (snd (main failing_host shell_env)) = Some Con \<and>
   ora_select_cur (snd (main failing_host shell_env)) = Some (Cur 0) \<and>
   ora_update_cur (snd (main failing_host shell_env)) = Some (Cur 1)"
  by code_simp

text \<open>
  C5, as the code has it. When the handler of the DB command raises an exception that
  \<open>except Exception\<close> catches, and the config gives the program name, the mail host and
  the sender and the text of the notification can be built, \<open>run\<close> logs the exception
  with its trace and then makes the calls of
  \<open>send_mail\<close> in order: the connection to the mail host, the headers (subject
  \<open>EXCEPTION - <program>\<close>, sender as \<open>From\<close> and \<open>To\<close>, priority 1), the content, the send.
  When none of these calls raises, the one message has been sent, \<open>run\<close> returns and the
  exit status is 0. Otherwise \<open>run\<close> ends with the first call that raises: nothing after
  that call is done, so no message is sent unless it is the send itself that raises, and
  the error leaves \<open>run\<close> and sets the exit status.
\<close>

theorem failure_is_logged_and_mailed:
  assumes "command (args s) = ''cmd3''"
    and "oracle_connect h s = (Return (), s1)"
    and "cmd3 h s1 = (Raise (Error c msg), s2)"
    and "cfg_get (cfg s2) ''main'' ''program'' = Inr program"
    and "notify_text h program ''EXCEPTION'' (format_exc h (Error c msg) @ ''.'') = Inr text"
    and "cfg_get (cfg s2) ''email'' ''mail_host'' = Inr mail_host"
    and "cfg_get (cfg s2) ''email'' ''sender_mail'' = Inr sender"
    and "log = LogException (''EXCEPTION - '' @ msg) (Error c msg)"
    and "m = \<lparr>msg_subject = ''EXCEPTION - '' @ program, msg_from = sender, msg_to = sender,
              msg_x_priority = ''1'', msg_content = text\<rparr>"
    and "calls = [SmtpConnect mail_host, SetHeader ''Subject'' (msg_subject m),
                  SetHeader ''From'' (msg_from m), SetHeader ''To'' (msg_to m),
                  SetHeader ''X-Priority'' (msg_x_priority m), SetContent (msg_content m),
                  SendMessage m]"
  shows "((\<forall>i<length calls. fails h (trace s2 @ log # take i calls) (calls ! i) = None) \<longrightarrow>
            run h s = (Return (), s2\<lparr>trace := trace s2 @ log # calls\<rparr>) \<and>
            exit_status (fst (run h s)) = Some 0) \<and>
         (\<forall>i e. i < length calls \<and>
                (\<forall>j<i. fails h (trace s2 @ log # take j calls) (calls ! j) = None) \<and>
                fails h (trace s2 @ log # take i calls) (calls ! i) = Some e \<longrightarrow>
            run h s = (Raise e, s2\<lparr>trace := trace s2 @ log # take (Suc i) calls\<rparr>) \<and>
            exit_status (fst (run h s)) = exit_status (Raise e :: unit outcome) \<and>
            filter is_send (take (Suc i) calls) =
              (if Suc i = length calls then [SendMessage m] else []))"
proof -
  let ?s3 = "s2\<lparr>trace := trace s2 @ [log]\<rparr>"
  have body: "run_body h s = (Raise (Error c msg), s2)"
    using assms(1-3) by (simp add: run_body_cmd3)
  then have "run h s = handle_exception h c msg s2"
    by (simp add: run_def)
  also have "\<dots> = issue h calls ?s3"
    unfolding assms(8,9,10) using assms(4-7) by (simp add: handle_exception_issue del: issue.simps)
  finally have run: "run h s = issue h calls ?s3" .
  have all: "run h s = (Return (), s2\<lparr>trace := trace s2 @ log # calls\<rparr>)"
    if "\<forall>i<length calls. fails h (trace s2 @ log # take i calls) (calls ! i) = None"
  proof -
    from that have "\<forall>i<length calls. fails h (trace ?s3 @ take i calls) (calls ! i) = None"
      by simp
    then have "issue h calls ?s3 = (Return (), ?s3\<lparr>trace := trace ?s3 @ calls\<rparr>)"
      by (rule issue_all)
    with run show ?thesis by simp
  qed
  have first: "run h s = (Raise e, s2\<lparr>trace := trace s2 @ log # take (Suc i) calls\<rparr>)"
    if "i < length calls"
      and "\<forall>j<i. fails h (trace s2 @ log # take j calls) (calls ! j) = None"
      and "fails h (trace s2 @ log # take i calls) (calls ! i) = Some e" for i e
  proof -
    from that(2) have "\<forall>j<i. fails h (trace ?s3 @ take j calls) (calls ! j) = None"
      by simp
    moreover from that(3) have "fails h (trace ?s3 @ take i calls) (calls ! i) = Some e"
      by simp
    ultimately have "issue h calls ?s3 = (Raise e, ?s3\<lparr>trace := trace ?s3 @ take (Suc i) calls\<rparr>)"
      using that(1) by (intro issue_first)
    with run show ?thesis by simp
  qed
  have sent: "filter is_send (take (Suc i) calls) =
                (if Suc i = length calls then [SendMessage m] else [])"
    if "i < length calls" for i
    using that unfolding assms(10) by (auto simp: less_Suc_eq)
  show ?thesis
  proof (intro conjI allI impI)
    show "run h s = (Return (), s2\<lparr>trace := trace s2 @ log # calls\<rparr>)"
      if "\<forall>i<length calls. fails h (trace s2 @ log # take i calls) (calls ! i) = None"
      using that by (rule all)
    show "exit_status (fst (run h s)) = Some 0"
      if "\<forall>i<length calls. fails h (trace s2 @ log # take i calls) (calls ! i) = None"
      using all [OF that] by simp
    show "run h s = (Raise e, s2\<lparr>trace := trace s2 @ log # take (Suc i) calls\<rparr>)"
      if "i < length calls \<and>
          (\<forall>j<i. fails h (trace s2 @ log # take j calls) (calls ! j) = None) \<and>
          fails h (trace s2 @ log # take i calls) (calls ! i) = Some e" for i e
      using that by (intro first) blast+
    show "exit_status (fst (run h s)) = exit_status (Raise e :: unit outcome)"
      if "i < length calls \<and>
          (\<forall>j<i. fails h (trace s2 @ log # take j calls) (calls ! j) = None) \<and>
          fails h (trace s2 @ log # take i calls) (calls ! i) = Some e" for i e
    proof -
      from that have "run h s = (Raise e, s2\<lparr>trace := trace s2 @ log # take (Suc i) calls\<rparr>)"
        by (intro first) blast+
      then show ?thesis by simp
    qed
    show "filter is_send (take (Suc i) calls) =
            (if Suc i = length calls then [SendMessage m] else [])"
      if "i < length calls \<and>
          (\<forall>j<i. fails h (trace s2 @ log # take j calls) (calls ! j) = None) \<and>
          fails h (trace s2 @ log # take i calls) (calls ! i) = Some e" for i e
      using that by (intro sent) blast
  qed
qed

text \<open>The calls of the mail in the examples are accepted by the library and the host.\<close>

lemma accepted_by_library:
  "refused ''posix'' (SmtpConnect a) = None"
  "refused ''posix'' (SetContent b) = None"
  "refused ''posix'' (SendMessage c) = None"
  "refused ''posix'' (SetHeader n ''EXCEPTION - pybase'') = None"
  "refused ''posix'' (SetHeader n ''ops@example.org'') = None"
  "refused ''posix'' (SetHeader n ''1'') = None"
  by (simp_all add: refused_def multi_line_def is_line_end_def)

lemma failing_host_accepts:
  "refused ''posix'' ev = None \<Longrightarrow> (\<And>c q. ev \<noteq> Execute c q) \<Longrightarrow>
     fails failing_host hist ev = None"
  by (cases ev) (auto simp: fails_def failing_host_def example_host_def)

theorem failure_is_logged_and_mailed_witness:
  "run failing_host (at_connect failing_host) =
     (Return (),
      (failed failing_host)\<lparr>trace := trace (failed failing_host) @
        [LogException ''EXCEPTION - ORA-00942'' (Error DatabaseError ''ORA-00942''),
         SmtpConnect ''mail.example.org'',
         SetHeader ''Subject'' ''EXCEPTION - pybase'',
         SetHeader ''From'' ''ops@example.org'',
         SetHeader ''To'' ''ops@example.org'',
         SetHeader ''X-Priority'' ''1'',
         SetContent ''pybase: EXCEPTION: Traceback.'',
         SendMessage
           \<lparr>msg_subject = ''EXCEPTION - pybase'', msg_from = ''ops@example.org'',
            msg_to = ''ops@example.org'', msg_x_priority = ''1'',
            msg_content = ''pybase: EXCEPTION: Traceback.''\<rparr>]\<rparr>) \<and>
   exit_status (fst (run failing_host (at_connect failing_host))) = Some 0 \<and>
   run mail_down_host (at_connect mail_down_host) =
     (Raise (Error OSError ''Connection refused''),
      (failed mail_down_host)\<lparr>trace := trace (failed mail_down_host) @
        [LogException ''EXCEPTION - ORA-00942'' (Error DatabaseError ''ORA-00942''),
         SmtpConnect ''mail.example.org'']\<rparr>) \<and>
   exit_status (fst (run mail_down_host (at_connect mail_down_host))) = Some 1"
proof -
  let ?log = "LogException ''EXCEPTION - ORA-00942'' (Error DatabaseError ''ORA-00942'')"
  let ?m = "\<lparr>msg_subject = ''EXCEPTION - pybase'', msg_from = ''ops@example.org'',
            msg_to = ''ops@example.org'', msg_x_priority = ''1'',
            msg_content = ''pybase: EXCEPTION: Traceback.''\<rparr>"
  let ?calls = "[SmtpConnect ''mail.example.org'', SetHeader ''Subject'' ''EXCEPTION - pybase'',
         SetHeader ''From'' ''ops@example.org'', SetHeader ''To'' ''ops@example.org'',
         SetHeader ''X-Priority'' ''1'', SetContent ''pybase: EXCEPTION: Traceback.'',
         SendMessage ?m]"
  have calls: "?calls = [SmtpConnect ''mail.example.org'', SetHeader ''Subject'' (msg_subject ?m),
                  SetHeader ''From'' (msg_from ?m), SetHeader ''To'' (msg_to ?m),
                  SetHeader ''X-Priority'' (msg_x_priority ?m), SetContent (msg_content ?m),
                  SendMessage ?m]"
    by simp

  have log: "?log = LogException (''EXCEPTION - '' @ ''ORA-00942'') (Error DatabaseError ''ORA-00942'')"
    by simp
  have program: "cfg_get (cfg (failed failing_host)) ''main'' ''program'' = Inr ''pybase''"
    by code_simp
  have mail_host: "cfg_get (cfg (failed failing_host)) ''email'' ''mail_host'' =
      Inr ''mail.example.org''"
    by code_simp
  have sender: "cfg_get (cfg (failed failing_host)) ''email'' ''sender_mail'' =
      Inr ''ops@example.org''"
    by code_simp
  have content: "notify_text failing_host ''pybase'' ''EXCEPTION''
      (format_exc failing_host (Error DatabaseError ''ORA-00942'') @ ''.'') =
        Inr ''pybase: EXCEPTION: Traceback.''"
    by (simp add: failing_host_def example_host_def)
  have m: "?m = \<lparr>msg_subject = ''EXCEPTION - '' @ ''pybase'', msg_from = ''ops@example.org'',
              msg_to = ''ops@example.org'', msg_x_priority = ''1'',
              msg_content = ''pybase: EXCEPTION: Traceback.''\<rparr>"
    by simp
  have quiet: "\<forall>i<length ?calls.
      fails failing_host (trace (failed failing_host) @ ?log # take i ?calls) (?calls ! i) = None"
    by (auto simp: less_Suc_eq accepted_by_library failing_host_accepts)
  note first = failure_is_logged_and_mailed
         [OF failing_run_steps program content mail_host sender log m calls]
  from first [THEN conjunct1] quiet
  have 1: "run failing_host (at_connect failing_host) =
     (Return (), (failed failing_host)\<lparr>trace := trace (failed failing_host) @ ?log # ?calls\<rparr>) \<and>
     exit_status (fst (run failing_host (at_connect failing_host))) = Some 0"
    by (rule mp)

  have program': "cfg_get (cfg (failed mail_down_host)) ''main'' ''program'' = Inr ''pybase''"
    by code_simp
  have mail_host': "cfg_get (cfg (failed mail_down_host)) ''email'' ''mail_host'' =
      Inr ''mail.example.org''"
    by code_simp
  have sender': "cfg_get (cfg (failed mail_down_host)) ''email'' ''sender_mail'' =
      Inr ''ops@example.org''"
    by code_simp
  have content': "notify_text mail_down_host ''pybase'' ''EXCEPTION''
      (format_exc mail_down_host (Error DatabaseError ''ORA-00942'') @ ''.'') =
        Inr ''pybase: EXCEPTION: Traceback.''"
    by (simp add: mail_down_host_def example_host_def)
  have down: "0 < length ?calls \<and>
      (\<forall>j<0. fails mail_down_host (trace (failed mail_down_host) @ ?log # take j ?calls)
                (?calls ! j) = None) \<and>
      fails mail_down_host (trace (failed mail_down_host) @ ?log # take 0 ?calls) (?calls ! 0) =
        Some (Error OSError ''Connection refused'')"
    by (simp add: fails_def refused_def mail_down_host_def example_host_def)
  note second = failure_is_logged_and_mailed
         [OF mail_down_run_steps program' content' mail_host' sender' log m calls]
  from second [THEN conjunct2, THEN spec, of 0, THEN spec,
               of "Error OSError ''Connection refused''"] down
  have "run mail_down_host (at_connect mail_down_host) =
        (Raise (Error OSError ''Connection refused''),
         (failed mail_down_host)\<lparr>trace := trace (failed mail_down_host) @
            ?log # take (Suc 0) ?calls\<rparr>) \<and>
      exit_status (fst (run mail_down_host (at_connect mail_down_host))) =
        exit_status (Raise (Error OSError ''Connection refused'') :: unit outcome) \<and>
      filter is_send (take (Suc 0) ?calls) =
        (if Suc 0 = length ?calls then [SendMessage ?m] else [])"
    by (rule mp)
  then have 2: "run mail_down_host (at_connect mail_down_host) =
     (Raise (Error OSError ''Connection refused''),
      (failed mail_down_host)\<lparr>trace := trace (failed mail_down_host) @
        [?log, SmtpConnect ''mail.example.org'']\<rparr>) \<and>
     exit_status (fst (run mail_down_host (at_connect mail_down_host))) = Some 1"
    by simp
  from 1 2 show ?thesis by simp
qed

text \<open>
  Against C5 as stated: the run in which \<open>execute\<close> raises and the mail goes out ends
  with \<open>run\<close> returned, so with exit status 0, after one message.
\<close>

theorem exit_status_zero_after_handled_failure:
  "fst (main failing_host shell_env) = Return () \<and>
   exit_status (fst (main failing_host shell_env)) = Some 0 \<and>
   filter is_send (trace (snd (main failing_host shell_env))) =
     [SendMessage
        \<lparr>msg_subject = ''EXCEPTION - pybase'', msg_from = ''ops@example.org'',
         msg_to = ''ops@example.org'', msg_x_priority = ''1'',
         msg_content = ''pybase: EXCEPTION: Traceback.''\<rparr>]"
  by code_simp

section \<open>Properties of the row factory\<close>

text \<open>
  A key that no pair carries keeps the value it had, and the keys of the dictionary are
  those it had and those of the pairs.
\<close>

lemma dict_fold_absent:
  "k \<notin> fst ` set ps \<Longrightarrow> fold dict_store ps m k = m k"
  by (induction ps arbitrary: m) (auto simp: dict_store_def)

lemma dict_fold_dom:
  "dom (fold dict_store ps m) = dom m \<union> fst ` set ps"
  by (induction ps arbitrary: m) (auto simp: dict_store_def)

text \<open>The last pair stored under a key is the one the dictionary holds.\<close>

lemma dict_fold_last:
  "i < length ps \<Longrightarrow> \<forall>j. i < j \<and> j < length ps \<longrightarrow> fst (ps ! j) \<noteq> fst (ps ! i) \<Longrightarrow>
     fold dict_store ps m (fst (ps ! i)) = Some (snd (ps ! i))"
proof (induction ps arbitrary: i m)
  case Nil
  then show ?case by simp
next
  case (Cons p ps)
  show ?case
  proof (cases i)
    case 0
    have "fst p \<notin> fst ` set ps"
    proof
      assume "fst p \<in> fst ` set ps"
      then obtain j where "j < length ps" and "fst (ps ! j) = fst p"
        by (auto simp: in_set_conv_nth)
      with Cons.prems(2) 0 show False by (auto dest: spec [of _ "Suc j"])
    qed
    then have "fold dict_store ps (dict_store p m) (fst p) = Some (snd p)"
      by (simp add: dict_fold_absent) (simp add: dict_store_def)
    with 0 show ?thesis by simp
  next
    case (Suc i')
    with Cons.prems have "i' < length ps"
      and "\<forall>j. i' < j \<and> j < length ps \<longrightarrow> fst (ps ! j) \<noteq> fst (ps ! i')"
      by (auto dest: spec [of _ "Suc j" for j])
    then have "fold dict_store ps (dict_store p m) (fst (ps ! i')) = Some (snd (ps ! i'))"
      by (rule Cons.IH)
    with Suc show ?thesis by simp
  qed
qed

text \<open>
  \<open>zip\<close> stops with the shorter of the names and the values, so the row is built from
  that many of each.
\<close>

lemma create_row_dom:
  "dom (create_row names vals) = set (take (min (length names) (length vals)) names)"
proof -
  have "fst ` set (zip names (map none_to_empty vals)) =
        set (map fst (zip names (map none_to_empty vals)))"
    by simp
  also have "\<dots> = set (take (min (length names) (length vals)) names)"
    by (simp add: map_fst_zip_take min.commute)
  finally show ?thesis by (simp add: create_row_def dict_of_def dict_fold_dom)
qed

lemma create_row_last:
  assumes "i < length names" "i < length vals"
    and "\<forall>j. i < j \<and> j < length names \<and> j < length vals \<longrightarrow> names ! j \<noteq> names ! i"
  shows "create_row names vals (names ! i) =
           Some (if vals ! i = PyNone then PyStr [] else vals ! i)"
proof -
  let ?ps = "zip names (map none_to_empty vals)"
  have "i < length ?ps" using assms by simp
  moreover have "\<forall>j. i < j \<and> j < length ?ps \<longrightarrow> fst (?ps ! j) \<noteq> fst (?ps ! i)"
    using assms by simp
  ultimately have "fold dict_store ?ps Map.empty (fst (?ps ! i)) = Some (snd (?ps ! i))"
    by (rule dict_fold_last)
  with assms show ?thesis by (simp add: create_row_def dict_of_def none_to_empty_def)
qed

lemma create_row_take:
  "create_row names vals =
     create_row (take (min (length names) (length vals)) names)
                (take (min (length names) (length vals)) vals)"
proof -
  have "zip names (map none_to_empty vals) =
        zip (take (min (length names) (length vals)) names)
            (map none_to_empty (take (min (length names) (length vals)) vals))"
    using take_zip [of "min (length names) (length vals)" names "map none_to_empty vals"]
    by (simp add: take_map)
  then show ?thesis by (simp add: create_row_def)
qed

text \<open>The column names of the examples, lower-cased.\<close>

lemma lower_examples:
  "str_lower ''COL1'' = ''col1''" "str_lower ''COL2'' = ''col2''" "str_lower ''COL3'' = ''col3''"
  "str_lower ''ID'' = ''id''" "str_lower ''NAME'' = ''name''"
  by code_simp+

text \<open>
  C7, as the code has it. For a description and a tuple of the same length the factory
  returns the row function, the keys of the row are the lower-cased column names, and
  the key of a column whose lower-cased name no later column has holds that column's
  value, the empty string for \<open>None\<close> and the value itself otherwise. So with pairwise
  distinct lower-cased names every column's key holds that column's value, and where
  several columns share a lower-cased name their one key holds the value of the last of
  them.
\<close>

theorem row_factory_keys_and_values:
  assumes "length cols = length vals"
  shows "oracle_row_factory (Some cols) = Inr (create_row (map str_lower cols)) \<and>
         dom (create_row (map str_lower cols) vals) = set (map str_lower cols) \<and>
         (\<forall>i < length cols.
            (\<forall>j. i < j \<and> j < length cols \<longrightarrow> str_lower (cols ! j) \<noteq> str_lower (cols ! i)) \<longrightarrow>
            create_row (map str_lower cols) vals (str_lower (cols ! i)) =
              Some (if vals ! i = PyNone then PyStr [] else vals ! i)) \<and>
         (distinct (map str_lower cols) \<longrightarrow>
            (\<forall>i < length cols.
               create_row (map str_lower cols) vals (str_lower (cols ! i)) =
                 Some (if vals ! i = PyNone then PyStr [] else vals ! i)))"
proof -
  have factory: "oracle_row_factory (Some cols) = Inr (create_row (map str_lower cols))"
    by (simp add: oracle_row_factory_def)
  have keys: "dom (create_row (map str_lower cols) vals) = set (map str_lower cols)"
    using assms by (simp add: create_row_dom)
  have last: "create_row (map str_lower cols) vals (str_lower (cols ! i)) =
                Some (if vals ! i = PyNone then PyStr [] else vals ! i)"
    if "i < length cols"
      and "\<forall>j. i < j \<and> j < length cols \<longrightarrow> str_lower (cols ! j) \<noteq> str_lower (cols ! i)"
    for i
    using that assms create_row_last [of i "map str_lower cols" vals] by simp
  have "create_row (map str_lower cols) vals (str_lower (cols ! i)) =
                Some (if vals ! i = PyNone then PyStr [] else vals ! i)"
    if "distinct (map str_lower cols)" and "i < length cols" for i
  proof (rule last [OF that(2)])
    show "\<forall>j. i < j \<and> j < length cols \<longrightarrow> str_lower (cols ! j) \<noteq> str_lower (cols ! i)"
      using that by (auto simp: distinct_conv_nth)
  qed
  with factory keys last show ?thesis by blast
qed

text \<open>
  The example of the claim: columns \<open>COL1\<close>, \<open>COL2\<close> and the tuple \<open>(None, "x")\<close>.
\<close>

theorem row_factory_keys_and_values_witness:
  "create_row (map str_lower [''COL1'', ''COL2'']) [PyNone, PyStr ''x''] =
     [''col1'' \<mapsto> PyStr [], ''col2'' \<mapsto> PyStr ''x'']"
proof -
  let ?row = "create_row (map str_lower [''COL1'', ''COL2'']) [PyNone, PyStr ''x'']"
  have len: "length [''COL1'', ''COL2''] = length [PyNone, PyStr ''x'']"
    by simp
  have d: "distinct (map str_lower [''COL1'', ''COL2''])"
    by (simp add: lower_examples)
  note fact = row_factory_keys_and_values [OF len]
  from fact have keys: "dom ?row = {''col1'', ''col2''}"
    by (simp add: lower_examples)
  from fact d have "\<forall>i < length [''COL1'', ''COL2''].
      ?row (str_lower ([''COL1'', ''COL2''] ! i)) =
        Some (if [PyNone, PyStr ''x''] ! i = PyNone then PyStr [] else [PyNone, PyStr ''x''] ! i)"
    by blast
  then have "?row (str_lower ([''COL1'', ''COL2''] ! 0)) = Some (PyStr [])"
    and "?row (str_lower ([''COL1'', ''COL2''] ! 1)) = Some (PyStr ''x'')"
    by force+
  then have v: "?row ''col1'' = Some (PyStr [])" "?row ''col2'' = Some (PyStr ''x'')"
    by (simp_all add: lower_examples)
  show ?thesis
  proof (rule ext)
    fix k
    show "?row k = [''col1'' \<mapsto> PyStr [], ''col2'' \<mapsto> PyStr ''x''] k"
    proof (cases "k = ''col1'' \<or> k = ''col2''")
      case True
      with v show ?thesis by auto
    next
      case False
      with keys have "k \<notin> dom ?row" by simp
      then have "?row k = None" by (simp add: domIff)
      with False show ?thesis by simp
    qed
  qed
qed

text \<open>
  Against C7 as stated: a query with two columns named \<open>ID\<close> and the tuple \<open>(1, 2)\<close>.
  The key of the first column holds 2, not the first value of the tuple.
\<close>

theorem last_of_two_columns_with_one_name_wins:
  "oracle_row_factory (Some [''ID'', ''ID'']) = Inr (create_row (map str_lower [''ID'', ''ID''])) \<and>
   create_row (map str_lower [''ID'', ''ID'']) [PyInt 1, PyInt 2] (str_lower ([''ID'', ''ID''] ! 0)) =
     Some (PyInt 2) \<and>
   [PyInt 1, PyInt 2] ! 0 = PyInt 1"
proof (intro conjI)
  show "oracle_row_factory (Some [''ID'', ''ID'']) = Inr (create_row (map str_lower [''ID'', ''ID'']))"
    by (simp add: oracle_row_factory_def)
  show "create_row (map str_lower [''ID'', ''ID'']) [PyInt 1, PyInt 2] (str_lower ([''ID'', ''ID''] ! 0)) =
     Some (PyInt 2)"
    by code_simp
  show "[PyInt 1, PyInt 2] ! 0 = PyInt 1"
    by simp
qed

text \<open>
  C10, as the code has it. Whatever the two lengths, the factory returns the row
  function and the row is the one built from the first \<open>n\<close> column names and the first
  \<open>n\<close> values, \<open>n\<close> the smaller of the two lengths: its keys are those \<open>n\<close> lower-cased
  names, so it has at most \<open>n\<close> entries, and exactly \<open>n\<close> when they are pairwise
  distinct; a column beyond the values whose lower-cased name is not among them has no
  entry.
\<close>

theorem row_factory_length_mismatch:
  assumes "n = min (length cols) (length vals)"
  shows "oracle_row_factory (Some cols) = Inr (create_row (map str_lower cols)) \<and>
         create_row (map str_lower cols) vals =
           create_row (take n (map str_lower cols)) (take n vals) \<and>
         dom (create_row (map str_lower cols) vals) = set (take n (map str_lower cols)) \<and>
         card (dom (create_row (map str_lower cols) vals)) \<le> n \<and>
         (distinct (take n (map str_lower cols)) \<longrightarrow>
            card (dom (create_row (map str_lower cols) vals)) = n) \<and>
         (\<forall>i. n \<le> i \<and> i < length cols \<and>
              str_lower (cols ! i) \<notin> set (take n (map str_lower cols)) \<longrightarrow>
              create_row (map str_lower cols) vals (str_lower (cols ! i)) = None)"
proof -
  have factory: "oracle_row_factory (Some cols) = Inr (create_row (map str_lower cols))"
    by (simp add: oracle_row_factory_def)
  have cut: "create_row (map str_lower cols) vals =
               create_row (take n (map str_lower cols)) (take n vals)"
    using assms create_row_take [of "map str_lower cols" vals] by simp
  have keys: "dom (create_row (map str_lower cols) vals) = set (take n (map str_lower cols))"
    using assms by (simp add: create_row_dom)
  have len: "length (take n (map str_lower cols)) = n"
    using assms by simp
  have most: "card (dom (create_row (map str_lower cols) vals)) \<le> n"
    using card_length [of "take n (map str_lower cols)"] keys len by simp
  have exact: "card (dom (create_row (map str_lower cols) vals)) = n"
    if "distinct (take n (map str_lower cols))"
    using distinct_card [OF that] keys len by simp
  have absent: "create_row (map str_lower cols) vals (str_lower (cols ! i)) = None"
    if "str_lower (cols ! i) \<notin> set (take n (map str_lower cols))" for i
    using that keys by (auto simp: domIff)
  from factory cut keys most exact absent show ?thesis by blast
qed

theorem row_factory_length_mismatch_witness:
  "dom (create_row (map str_lower [''COL1'', ''COL2'', ''COL3'']) [PyNone, PyStr ''x'']) =
     {''col1'', ''col2''} \<and>
   card (dom (create_row (map str_lower [''COL1'', ''COL2'', ''COL3'']) [PyNone, PyStr ''x''])) = 2 \<and>
   create_row (map str_lower [''COL1'', ''COL2'', ''COL3'']) [PyNone, PyStr ''x'']
     (str_lower ([''COL1'', ''COL2'', ''COL3''] ! 2)) = None"
proof -
  have n: "(2::nat) = min (length [''COL1'', ''COL2'', ''COL3'']) (length [PyNone, PyStr ''x''])"
    by simp
  have d: "distinct (take 2 (map str_lower [''COL1'', ''COL2'', ''COL3'']))"
    by (simp add: lower_examples)
  have a: "2 \<le> (2::nat) \<and> 2 < length [''COL1'', ''COL2'', ''COL3''] \<and>
      str_lower ([''COL1'', ''COL2'', ''COL3''] ! 2) \<notin>
        set (take 2 (map str_lower [''COL1'', ''COL2'', ''COL3'']))"
    by (simp add: lower_examples)
  note fact = row_factory_length_mismatch [OF n]
  from fact have "dom (create_row (map str_lower [''COL1'', ''COL2'', ''COL3'']) [PyNone, PyStr ''x'']) =
     set (take 2 (map str_lower [''COL1'', ''COL2'', ''COL3'']))"
    by blast
  then have "dom (create_row (map str_lower [''COL1'', ''COL2'', ''COL3'']) [PyNone, PyStr ''x'']) =
     {''col1'', ''col2''}"
    by (simp add: lower_examples)
  moreover from fact d have "card (dom (create_row (map str_lower [''COL1'', ''COL2'', ''COL3''])
      [PyNone, PyStr ''x''])) = 2"
    by blast
  moreover from fact a have "create_row (map str_lower [''COL1'', ''COL2'', ''COL3'']) [PyNone, PyStr ''x'']
     (str_lower ([''COL1'', ''COL2'', ''COL3''] ! 2)) = None"
    by blast
  ultimately show ?thesis by blast
qed

text \<open>
  Against C10 as stated: three columns \<open>ID\<close>, \<open>ID\<close>, \<open>NAME\<close> and the tuple \<open>(1, 2)\<close>. The
  smaller length is 2 and the row has one entry.
\<close>

theorem fewer_entries_than_values_with_one_name_twice:
  "card (dom (create_row (map str_lower [''ID'', ''ID'', ''NAME'']) [PyInt 1, PyInt 2])) = 1 \<and>
   min (length [''ID'', ''ID'', ''NAME'']) (length [PyInt 1, PyInt 2]) = 2"
  by (simp add: create_row_dom lower_examples)

end
